theory Spec2Isabelle
  imports Complex_Main "HOL-Library.Sublist" "HOL-Library.AList"
begin

text \<open>
  A model of the map page of the Web GIS Resource Manager (\<open>HomePage\<close>, its helpers and
  the attribute table's callbacks) and of the store behind it (tables, view and stored
  procedures), followed by the properties claimed of them. The page's handlers are
  state transformers on a pair of the component state and the world outside it.
\<close>

section \<open>Geometry and the bounding box helper\<close>

text \<open>
  A GeoJSON geometry as the client receives it from the view \<open>resources_geojson\<close>: the
  \<open>type\<close> member (a string) and the \<open>coordinates\<close> member, a position \<open>[x, y]\<close> or an
  array nesting positions. Coordinates arrive as JSON numbers, hence finite: they are
  modelled as reals, and the comparisons of \<open>Math.min\<close> and \<open>Math.max\<close> are exact on them.
\<close>

datatype coords = Pos real real | Nest "coords list"

record geometry =
  gtype :: string
  coordinates :: coords

text \<open>
  The accumulator of \<open>bboxOf\<close> starts at \<open>[Infinity, Infinity, -Infinity, -Infinity]\<close>, so
  its entries are numbers extended by the two infinities.
\<close>

datatype jsnum = NegInf | Fin real | PosInf

fun Math_min :: "jsnum \<Rightarrow> jsnum \<Rightarrow> jsnum" where
  "Math_min NegInf b = NegInf"
| "Math_min a NegInf = NegInf"
| "Math_min PosInf b = b"
| "Math_min a PosInf = a"
| "Math_min (Fin a) (Fin b) = Fin (min a b)"

fun Math_max :: "jsnum \<Rightarrow> jsnum \<Rightarrow> jsnum" where
  "Math_max PosInf b = PosInf"
| "Math_max a PosInf = PosInf"
| "Math_max NegInf b = b"
| "Math_max a NegInf = a"
| "Math_max (Fin a) (Fin b) = Fin (max a b)"

type_synonym bbox = "jsnum \<times> jsnum \<times> jsnum \<times> jsnum"

text \<open>
  \<^verbatim>\<open>
  const walk = (coords, bb) => {
    if (typeof coords[0] === "number") {
      const [x, y] = coords;
      bb[0] = Math.min(bb[0], x); bb[1] = Math.min(bb[1], y);
      bb[2] = Math.max(bb[2], x); bb[3] = Math.max(bb[3], y);
    } else { for (const c of coords) walk(c, bb); }
    return bb;
  };
  return walk(geom.coordinates, [Infinity, Infinity, -Infinity, -Infinity]);
  \<close>
  The array \<open>bb\<close> is mutated in place by every call; the model passes it through.
  An empty array has no first element, so it takes the \<open>else\<close> branch and loops zero
  times.
\<close>

fun walk :: "coords \<Rightarrow> bbox \<Rightarrow> bbox" where
  "walk (Pos x y) (b0, b1, b2, b3) =
     (Math_min b0 (Fin x), Math_min b1 (Fin y), Math_max b2 (Fin x), Math_max b3 (Fin y))"
| "walk (Nest cs) bb = fold walk cs bb"

definition bboxOf :: "geometry \<Rightarrow> bbox" where
  "bboxOf geom = walk (coordinates geom) (PosInf, PosInf, NegInf, NegInf)"

text \<open>All coordinate pairs of a geometry, in the order \<open>walk\<close> visits them.\<close>

fun positions :: "coords \<Rightarrow> (real \<times> real) list" where
  "positions (Pos x y) = [(x, y)]"
| "positions (Nest cs) = concat (map positions cs)"

definition xs_of :: "geometry \<Rightarrow> real set" where
  "xs_of geom = fst ` set (positions (coordinates geom))"

definition ys_of :: "geometry \<Rightarrow> real set" where
  "ys_of geom = snd ` set (positions (coordinates geom))"

section \<open>JavaScript strings and JSON values\<close>

text \<open>
  Strings are modelled as lists of 8-bit characters and read as ASCII text: \<open>trim\<close>
  removes the ASCII white space at both ends and \<open>toLowerCase\<close> maps \<open>A\<close>..\<open>Z\<close> to
  \<open>a\<close>..\<open>z\<close>, leaving every other character alone.
\<close>

definition is_ws :: "char \<Rightarrow> bool" where
  "is_ws c = (c = CHR '' '' \<or> c = CHR 0x09 \<or> c = CHR 0x0A \<or> c = CHR 0x0B
              \<or> c = CHR 0x0C \<or> c = CHR 0x0D)"

definition trim :: "string \<Rightarrow> string" where
  "trim s = rev (dropWhile is_ws (rev (dropWhile is_ws s)))"

definition lower_char :: "char \<Rightarrow> char" where
  "lower_char c =
     (case map_of (zip ''ABCDEFGHIJKLMNOPQRSTUVWXYZ'' ''abcdefghijklmnopqrstuvwxyz'') c of
        Some l \<Rightarrow> l
      | None \<Rightarrow> c)"

definition toLowerCase :: "string \<Rightarrow> string" where
  "toLowerCase s = map lower_char s"

text \<open>\<open>hay.includes(needle)\<close>: the needle occurs in the haystack at some position.\<close>

fun str_includes :: "string \<Rightarrow> string \<Rightarrow> bool" where
  "str_includes [] needle = (needle = [])"
| "str_includes (h # hs) needle = (prefix needle (h # hs) \<or> str_includes hs needle)"

text \<open>\<open>s.startsWith(p)\<close>.\<close>

definition startsWith :: "string \<Rightarrow> string \<Rightarrow> bool" where
  "startsWith s p = prefix p s"

text \<open>
  JSON values, as the property bag of a resource holds them (\<open>properties jsonb\<close>) and
  as \<open>JSON.parse\<close> returns them. Numbers are integers here; an object is the list of its
  members in enumeration order.
\<close>

datatype json =
    JNull
  | JBool bool
  | JNum int
  | JStr string
  | JArr "json list"
  | JObj "(string \<times> json) list"

text \<open>The values JavaScript takes as true in \<open>a || b\<close> and \<open>a ? b : c\<close>.\<close>

fun truthy :: "json \<Rightarrow> bool" where
  "truthy JNull = False"
| "truthy (JBool b) = b"
| "truthy (JNum n) = (n \<noteq> 0)"
| "truthy (JStr s) = (s \<noteq> [])"
| "truthy (JArr xs) = True"
| "truthy (JObj kvs) = True"

definition digit_char :: "nat \<Rightarrow> char" where
  "digit_char d = ''0123456789'' ! d"

fun show_nat :: "nat \<Rightarrow> string" where
  "show_nat n = (if n < 10 then [digit_char n] else show_nat (n div 10) @ [digit_char (n mod 10)])"

definition show_int :: "int \<Rightarrow> string" where
  "show_int i = (if i < 0 then CHR ''-'' # show_nat (nat (- i)) else show_nat (nat i))"

definition hex_char :: "nat \<Rightarrow> char" where
  "hex_char d = ''0123456789abcdef'' ! d"

text \<open>
  The quoting of \<open>JSON.stringify\<close>: the double quote and the backslash are escaped,
  the control characters below \<open>0x20\<close> are written \<open>\b \t \n \f \r\<close> or \<open>\u00XX\<close>.
\<close>

definition quote_char :: "char \<Rightarrow> string" where
  "quote_char c =
     (if c = CHR 0x22 then [CHR 0x5C, CHR 0x22]
      else if c = CHR 0x5C then [CHR 0x5C, CHR 0x5C]
      else if c = CHR 0x08 then [CHR 0x5C, CHR ''b'']
      else if c = CHR 0x09 then [CHR 0x5C, CHR ''t'']
      else if c = CHR 0x0A then [CHR 0x5C, CHR ''n'']
      else if c = CHR 0x0C then [CHR 0x5C, CHR ''f'']
      else if c = CHR 0x0D then [CHR 0x5C, CHR ''r'']
      else if (of_char c :: nat) < 32
        then [CHR 0x5C, CHR ''u'', CHR ''0'', CHR ''0'',
              hex_char ((of_char c :: nat) div 16), hex_char ((of_char c :: nat) mod 16)]
      else [c])"

definition quote :: "string \<Rightarrow> string" where
  "quote s = CHR 0x22 # concat (map quote_char s) @ [CHR 0x22]"

fun commas :: "string list \<Rightarrow> string" where
  "commas [] = []"
| "commas [x] = x"
| "commas (x # y # zs) = x @ CHR '','' # commas (y # zs)"

definition member_text :: "string \<times> string \<Rightarrow> string" where
  "member_text kv = quote (fst kv) @ CHR '':'' # snd kv"

text \<open>\<open>JSON.stringify(v)\<close> with no indentation.\<close>

primrec JSON_stringify :: "json \<Rightarrow> string" where
  "JSON_stringify JNull = ''null''"
| "JSON_stringify (JBool b) = (if b then ''true'' else ''false'')"
| "JSON_stringify (JNum n) = show_int n"
| "JSON_stringify (JStr s) = quote s"
| "JSON_stringify (JArr xs) = CHR ''['' # commas (map JSON_stringify xs) @ '']''"
| "JSON_stringify (JObj kvs) =
     CHR ''{'' # commas (map member_text (map (map_prod id JSON_stringify) kvs)) @ ''}''"

text \<open>
  The members an object spread \<open>{...v}\<close> copies: the members of an object, the indexed
  elements of an array, the indexed characters of a string, nothing otherwise.
\<close>

fun spread :: "json \<Rightarrow> (string \<times> json) list" where
  "spread (JObj kvs) = kvs"
| "spread (JArr xs) = zip (map show_nat [0 ..< length xs]) xs"
| "spread (JStr s) = zip (map show_nat [0 ..< length s]) (map (\<lambda>c. JStr [c]) s)"
| "spread v = []"

text \<open>
  Writing members into an object one after the other: a key already present keeps its
  place and takes the new value, a new key goes to the end.
\<close>

definition assign :: "(string \<times> json) list \<Rightarrow> (string \<times> json) list \<Rightarrow> (string \<times> json) list" where
  "assign obj members = fold (\<lambda>kv acc. AList.update (fst kv) (snd kv) acc) members obj"

text \<open>\<open>v || {}\<close> for a value that may be \<open>null\<close>.\<close>

definition or_empty :: "json option \<Rightarrow> json" where
  "or_empty p = (case p of None \<Rightarrow> JObj [] | Some v \<Rightarrow> if truthy v then v else JObj [])"

section \<open>The store: tables, sequences and stored procedures\<close>

text \<open>
  \<^verbatim>\<open>
  create table if not exists public.resources (
    id bigserial primary key, name text not null, rtype text not null,
    status text not null default 'active', properties jsonb,
    geom geometry(Geometry, 4326) not null,
    created_at timestamptz not null default now());
  \<close>
  A column that may be \<open>NULL\<close> is an option. The stored geometry is kept in the same
  form as the GeoJSON geometry; the two conversions of the geometry extension
  (\<open>st_setsrid(st_geomfromgeojson(..), 4326)\<close> and \<open>st_asgeojson\<close>) are parameters of
  the model.
\<close>

record resource_row =
  r_id :: int
  r_name :: string
  r_rtype :: string
  r_status :: string
  r_properties :: "json option"
  r_geom :: geometry
  r_created_at :: nat

text \<open>
  \<^verbatim>\<open>
  create table if not exists public.resource_activity (
    id bigserial primary key,
    resource_id bigint references public.resources(id) on delete set null,
    action text not null check (action in ('create','update','delete')),
    old_values jsonb, new_values jsonb,
    at timestamptz not null default now());
  \<close>
  \<open>to_jsonb(row)\<close> is kept as the row itself.
\<close>

record activity_row =
  a_id :: int
  a_resource_id :: "int option"
  a_action :: string
  a_old_values :: "resource_row option"
  a_new_values :: "resource_row option"
  a_at :: nat

text \<open>A row of the view \<open>resources_geojson\<close>, as the client receives it.\<close>

record geojson_row =
  v_id :: int
  v_name :: string
  v_rtype :: string
  v_status :: string
  v_properties :: "json option"
  v_created_at :: nat
  v_geometry :: geometry

text \<open>A browser \<open>File\<close> (name, declared content type, size in bytes).\<close>

record File =
  file_name :: string
  file_type :: string
  file_size :: nat

text \<open>\<open>AttachmentRow\<close>, a row of the table \<open>resource_files\<close>.\<close>

record AttachmentRow =
  att_id :: int
  att_resource_id :: int
  att_path :: string
  att_bucket :: string
  att_filename :: string
  att_content_type :: "string option"
  att_size :: "nat option"
  att_created_at :: nat

text \<open>
  The requests the client sends. Every request is appended to the log \<open>requests\<close> of
  the world, so that "no call was made" is a statement about that log.
\<close>

datatype request =
    SelectResources "string option" "string option"
  | SelectResourceFiles int
  | InsertResource string string string json geometry
  | RpcUpdateResource int "string option" "string option" "string option"
      "json option" "geometry option"
  | RpcDeleteResource int
  | StorageUpload string string File
  | InsertResourceFile int string string string string nat

text \<open>
  The \<open>error\<close> object of a response: its \<open>message\<close>, which may be missing
  (\<open>error.message ?? "unknown"\<close>).
\<close>

type_synonym error = "string option"

definition message_or_unknown :: "error \<Rightarrow> string" where
  "message_or_unknown e = (case e of None \<Rightarrow> ''unknown'' | Some m \<Rightarrow> m)"

text \<open>
  What the program does not define itself: the JavaScript built-ins it calls, the
  clock, the geometry conversions of the store, and which requests the outside world
  lets fail (network, policies). \<open>parseFloat\<close> returns \<open>None\<close> for \<open>NaN\<close>;
  \<open>JSON_parse\<close> returns \<open>None\<close> where \<open>JSON.parse\<close> throws; \<open>Date_now n\<close> is what
  \<open>Date.now()\<close> returns once \<open>n\<close> requests have been sent.
\<close>

record env =
  parseFloat :: "string \<Rightarrow> real option"
  JSON_parse :: "string \<Rightarrow> json option"
  toFixed :: "nat \<Rightarrow> real \<Rightarrow> string"
  JSON_stringify_indent :: "json \<Rightarrow> string"
  Date_now :: "nat \<Rightarrow> nat"
  Date_toISOString :: string
  draw_new_id :: string
  fails :: "request \<Rightarrow> error option"
  st_geomfromgeojson :: "geometry \<Rightarrow> geometry option"
  st_asgeojson :: "geometry \<Rightarrow> geometry"

record world =
  resources :: "resource_row list"
  resources_id_seq :: int
  resource_activity :: "activity_row list"
  resource_activity_id_seq :: int
  resource_files :: "AttachmentRow list"
  resource_files_id_seq :: int
  storage_objects :: "(string \<times> string \<times> File) list"
  requests :: "request list"
  db_now :: nat

definition coalesce :: "'a option \<Rightarrow> 'a \<Rightarrow> 'a" where
  "coalesce p c = (case p of None \<Rightarrow> c | Some v \<Rightarrow> v)"

definition coalesce_null :: "'a option \<Rightarrow> 'a option \<Rightarrow> 'a option" where
  "coalesce_null p c = (case p of None \<Rightarrow> c | Some v \<Rightarrow> Some v)"

definition log_activity ::
  "int \<Rightarrow> string \<Rightarrow> resource_row option \<Rightarrow> resource_row option \<Rightarrow> world \<Rightarrow> world" where
  "log_activity rid act old new w =
     w\<lparr>resource_activity := resource_activity w @
          [\<lparr>a_id = resource_activity_id_seq w, a_resource_id = Some rid, a_action = act,
            a_old_values = old, a_new_values = new, a_at = db_now w\<rparr>],
       resource_activity_id_seq := resource_activity_id_seq w + 1\<rparr>"

definition find_resource :: "int \<Rightarrow> world \<Rightarrow> resource_row option" where
  "find_resource p_id w = find (\<lambda>r. r_id r = p_id) (resources w)"

text \<open>
  \<^verbatim>\<open>
  create or replace function public.update_resource(
    p_id bigint, p_name text default null, p_rtype text default null,
    p_status text default null, p_properties jsonb default null,
    p_geometry jsonb default null) returns public.resources ... as $$
  begin
    select * into old_row from public.resources where id = p_id;
    update public.resources
    set name = coalesce(p_name, name), rtype = coalesce(p_rtype, rtype),
        status = coalesce(p_status, status),
        properties = coalesce(p_properties, properties),
        geom = coalesce(
          case when p_geometry is not null
               then st_setsrid(st_geomfromgeojson(p_geometry::text), 4326) end,
          geom)
    where id = p_id
    returning * into new_row;
    insert into public.resource_activity (resource_id, action, old_values, new_values)
    values (p_id, 'update', to_jsonb(old_row), to_jsonb(new_row));
    return new_row;
  end; $$;
  \<close>
  An omitted or \<open>NULL\<close> parameter is \<open>None\<close>. The function fails as a whole (and
  changes nothing) when the geometry conversion raises, or when no row has the id:
  the activity row would then reference a resource that does not exist.
\<close>

definition set_clause ::
  "string option \<Rightarrow> string option \<Rightarrow> string option \<Rightarrow> json option \<Rightarrow> geometry option
   \<Rightarrow> resource_row \<Rightarrow> resource_row" where
  "set_clause p_name p_rtype p_status p_properties new_geom r =
     r\<lparr>r_name := coalesce p_name (r_name r),
       r_rtype := coalesce p_rtype (r_rtype r),
       r_status := coalesce p_status (r_status r),
       r_properties := coalesce_null p_properties (r_properties r),
       r_geom := coalesce new_geom (r_geom r)\<rparr>"

definition update_resource ::
  "env \<Rightarrow> int \<Rightarrow> string option \<Rightarrow> string option \<Rightarrow> string option \<Rightarrow> json option
   \<Rightarrow> geometry option \<Rightarrow> world \<Rightarrow> error + (resource_row \<times> world)" where
  "update_resource E p_id p_name p_rtype p_status p_properties p_geometry w =
     (case find_resource p_id w of
        None \<Rightarrow> Inl (Some ''violates foreign key constraint'')
      | Some old_row \<Rightarrow>
          (case (case p_geometry of
                   None \<Rightarrow> Some None
                 | Some g \<Rightarrow> map_option Some (st_geomfromgeojson E g)) of
             None \<Rightarrow> Inl (Some ''invalid GeoJSON representation'')
           | Some new_geom \<Rightarrow>
               (let upd = set_clause p_name p_rtype p_status p_properties new_geom;
                    new_row = upd old_row;
                    w1 = w\<lparr>resources :=
                           map (\<lambda>r. if r_id r = p_id then upd r else r) (resources w)\<rparr>
                in Inr (new_row,
                        log_activity p_id ''update'' (Some old_row) (Some new_row) w1))))"



text \<open>
  \<^verbatim>\<open>
  create or replace view public.resources_geojson as
  select id, name, rtype, status, properties, created_at,
         (st_asgeojson(geom)::jsonb) as geometry
  from public.resources;
  \<close>
\<close>

definition resources_geojson :: "env \<Rightarrow> world \<Rightarrow> geojson_row list" where
  "resources_geojson E w =
     map (\<lambda>r. \<lparr>v_id = r_id r, v_name = r_name r, v_rtype = r_rtype r, v_status = r_status r,
               v_properties = r_properties r, v_created_at = r_created_at r,
               v_geometry = st_asgeojson E (r_geom r)\<rparr>) (resources w)"

section \<open>Requests of the client\<close>

definition send :: "request \<Rightarrow> world \<Rightarrow> world" where
  "send req w = w\<lparr>requests := requests w @ [req]\<rparr>"

text \<open>
  \<open>supabase.from("resources_geojson").select("*").order("id", { ascending: false })\<close>
  with the optional \<open>.eq("rtype", ..)\<close> and \<open>.eq("status", ..)\<close>.
\<close>

definition select_resources ::
  "env \<Rightarrow> string option \<Rightarrow> string option \<Rightarrow> world \<Rightarrow> geojson_row list" where
  "select_resources E eq_rtype eq_status w =
     (let rows = resources_geojson E w;
          rows1 = (case eq_rtype of None \<Rightarrow> rows | Some t \<Rightarrow> filter (\<lambda>r. v_rtype r = t) rows);
          rows2 = (case eq_status of None \<Rightarrow> rows1 | Some t \<Rightarrow> filter (\<lambda>r. v_status r = t) rows1)
      in sort_key (\<lambda>r. - v_id r) rows2)"

text \<open>
  \<open>supabase.from("resources").insert([{ name, rtype, status, properties, geometry }])
  .select("id").single()\<close>: an insert into the table itself, not a call of
  \<open>create_resource_from_geojson\<close>. The object sent has a member \<open>geometry\<close>. The table
  has no column of that name, and no trigger, rule or default is declared that would
  fill the column \<open>geom\<close>, which is \<open>not null\<close>. So the store refuses the insert,
  whatever the values are and whatever else it lets through; the wording of the message
  is the store's.
\<close>

definition resources_columns :: "string list" where
  "resources_columns =
     [''id'', ''name'', ''rtype'', ''status'', ''properties'', ''geom'', ''created_at'']"

definition inserted_members :: "string list" where
  "inserted_members = [''name'', ''rtype'', ''status'', ''properties'', ''geometry'']"

definition unknown_column :: "string \<Rightarrow> string" where
  "unknown_column m =
     ''Could not find the '' @ [CHR 0x27] @ m @ [CHR 0x27] @ '' column of ''
     @ [CHR 0x27] @ ''resources'' @ [CHR 0x27] @ '' in the schema cache''"

definition insert_resource ::
  "env \<Rightarrow> string \<Rightarrow> string \<Rightarrow> string \<Rightarrow> json \<Rightarrow> geometry \<Rightarrow> world \<Rightarrow> (error + int) \<times> world" where
  "insert_resource E nm rt st props g w0 =
     (let req = InsertResource nm rt st props g; w = send req w0 in
      case fails E req of
        Some e \<Rightarrow> (Inl e, w)
      | None \<Rightarrow>
          (case filter (\<lambda>m. m \<notin> set resources_columns) inserted_members of
             m # ms \<Rightarrow> (Inl (Some (unknown_column m)), w)
           | [] \<Rightarrow>
               (Inl (Some ''null value in column geom violates not-null constraint''), w)))"

text \<open>\<open>supabase.rpc("update_resource", { p_id, ... })\<close>: the error of the response, if any.\<close>

definition rpc_update_resource ::
  "env \<Rightarrow> int \<Rightarrow> string option \<Rightarrow> string option \<Rightarrow> string option \<Rightarrow> json option
   \<Rightarrow> geometry option \<Rightarrow> world \<Rightarrow> error option \<times> world" where
  "rpc_update_resource E p_id p_name p_rtype p_status p_properties p_geometry w0 =
     (let req = RpcUpdateResource p_id p_name p_rtype p_status p_properties p_geometry;
          w = send req w0 in
      case fails E req of
        Some e \<Rightarrow> (Some e, w)
      | None \<Rightarrow>
          (case update_resource E p_id p_name p_rtype p_status p_properties p_geometry w of
             Inl e \<Rightarrow> (Some e, w)
           | Inr (new_row, w1) \<Rightarrow> (None, w1)))"

text \<open>
  \<^verbatim>\<open>
  create or replace function public.delete_resource(p_id bigint) returns void ... as $$
  declare old_row public.resources;
  begin
    select * into old_row from public.resources where id = p_id;
    -- Log before deletion
    insert into public.resource_activity (resource_id, action, old_values)
    values (p_id, 'delete', to_jsonb(old_row));
    delete from public.resources where id = p_id;
  end; $$;
  \<close>
  The activity row references the resource, so the function fails when no row has the
  id; \<open>on delete set null\<close> then clears the reference in every activity row of the
  deleted resource. The tables \<open>work_orders\<close> and \<open>resource_files\<close> are not touched by
  the model.
\<close>

definition delete_resource :: "int \<Rightarrow> world \<Rightarrow> error + world" where
  "delete_resource p_id w =
     (case find_resource p_id w of
        None \<Rightarrow> Inl (Some ''violates foreign key constraint'')
      | Some old_row \<Rightarrow>
          (let w1 = log_activity p_id ''delete'' (Some old_row) None w
           in Inr (w1\<lparr>resources := filter (\<lambda>r. r_id r \<noteq> p_id) (resources w1),
                       resource_activity :=
                         map (\<lambda>a. if a_resource_id a = Some p_id
                                  then a\<lparr>a_resource_id := None\<rparr> else a)
                             (resource_activity w1)\<rparr>)))"

text \<open>\<open>supabase.rpc("delete_resource", { p_id })\<close>: the error of the response, if any.\<close>

definition rpc_delete_resource :: "env \<Rightarrow> int \<Rightarrow> world \<Rightarrow> error option \<times> world" where
  "rpc_delete_resource E p_id w0 =
     (let req = RpcDeleteResource p_id; w = send req w0 in
      case fails E req of
        Some e \<Rightarrow> (Some e, w)
      | None \<Rightarrow>
          (case delete_resource p_id w of
             Inl e \<Rightarrow> (Some e, w)
           | Inr w1 \<Rightarrow> (None, w1)))"

text \<open>
  \<open>supabase.storage.from(bucket).upload(path, file, { contentType, upsert: false })\<close>:
  with \<open>upsert: false\<close> an object already stored under the path is an error.
\<close>

definition storage_upload ::
  "env \<Rightarrow> string \<Rightarrow> string \<Rightarrow> File \<Rightarrow> world \<Rightarrow> error option \<times> world" where
  "storage_upload E bucket path file w0 =
     (let req = StorageUpload bucket path file; w = send req w0 in
      case fails E req of
        Some e \<Rightarrow> (Some e, w)
      | None \<Rightarrow>
          if (bucket, path) \<in> set (map (\<lambda>ob. (fst ob, fst (snd ob))) (storage_objects w))
          then (Some (Some ''The resource already exists''), w)
          else (None, w\<lparr>storage_objects := storage_objects w @ [(bucket, path, file)]\<rparr>))"

text \<open>
  Modelled from the spec: the declaration of the table \<open>resource_files\<close> is not among
  the sources. An attachment has an id, its resource id, storage path and bucket, the
  original filename, content type, byte size and creation time; the insert assigns
  the id from a sequence and the creation time from the clock of the store.
\<close>

definition insert_resource_file ::
  "env \<Rightarrow> int \<Rightarrow> string \<Rightarrow> string \<Rightarrow> string \<Rightarrow> string \<Rightarrow> nat \<Rightarrow> world \<Rightarrow> error option \<times> world" where
  "insert_resource_file E resource_id path bucket filename content_type sz w0 =
     (let req = InsertResourceFile resource_id path bucket filename content_type sz;
          w = send req w0 in
      case fails E req of
        Some e \<Rightarrow> (Some e, w)
      | None \<Rightarrow>
          (None, w\<lparr>resource_files := resource_files w @
                       [\<lparr>att_id = resource_files_id_seq w, att_resource_id = resource_id,
                         att_path = path, att_bucket = bucket, att_filename = filename,
                         att_content_type = Some content_type, att_size = Some sz,
                         att_created_at = db_now w\<rparr>],
                    resource_files_id_seq := resource_files_id_seq w + 1\<rparr>))"

text \<open>
  \<open>supabase.from("resource_files").select("*").eq("resource_id", resourceId)
  .order("created_at", { ascending: false })\<close>.
\<close>

definition select_resource_files :: "int \<Rightarrow> world \<Rightarrow> AttachmentRow list" where
  "select_resource_files resourceId w =
     sort_key (\<lambda>a. - int (att_created_at a))
       (filter (\<lambda>a. att_resource_id a = resourceId) (resource_files w))"

section \<open>The state of the page component\<close>

datatype CreateMode = CreateOff | CreatePoint | CreateGeofence | CreateRoute

datatype MovePointMode = MoveOff | MovePick | MoveDrag

datatype PanelTab = TabCreate | TabEdit

text \<open>\<open>Feature\<close>: the id, the geometry and the properties object.\<close>

record feature =
  f_id :: int
  f_geometry :: geometry
  f_properties :: "(string \<times> json) list"

text \<open>
  The map object behind \<open>mapRef\<close>, as far as the component uses it: whether its style
  is loaded, and the id operand of the filter
  \<open>["==", ["get", "id"], operand]\<close> of each of the three highlight layers
  \<open>point-selected\<close>, \<open>route-selected\<close> and \<open>geofence-selected-outline\<close>.
\<close>

record map_state =
  styleLoaded :: bool
  point_selected :: int
  route_selected :: int
  geofence_selected_outline :: int

text \<open>The draw control behind \<open>drawRef\<close>: its mode and its features by draw id.\<close>

record draw_state =
  draw_mode :: string
  draw_features :: "(string \<times> geometry) list"

definition changeMode :: "string \<Rightarrow> draw_state \<Rightarrow> draw_state" where
  "changeMode m d = d\<lparr>draw_mode := m\<rparr>"

definition deleteAll :: "draw_state \<Rightarrow> draw_state" where
  "deleteAll d = d\<lparr>draw_features := []\<rparr>"

text \<open>
  The state variables and refs of \<open>HomePage\<close> that the modelled handlers read or
  write. \<open>statusLog\<close> is not a variable of the component: it records every message
  passed to \<open>setStatusMsg\<close>, in order, so that a message shown and later overwritten
  can still be spoken of. The ref \<open>editingRef\<close> mirrors \<open>editing\<close> and is the same field.
\<close>

record ui =
  statusMsg :: string
  statusLog :: "string list"
  busy :: bool
  selectedId :: "int option"
  selectedGeomType :: "string option"
  panelOpen :: bool
  panelTab :: PanelTab
  fabOpen :: bool
  fc :: "feature list"
  createMode :: CreateMode
  name :: string
  rtype :: string
  rstatus :: string
  propsText :: string
  lon :: string
  lat :: string
  createFiles :: "File list"
  movePointMode :: MovePointMode
  stageLon :: string
  stageLat :: string
  editing :: "(int \<times> string) option"
  fltType :: string
  fltStatus :: string
  q :: string
  attachments :: "AttachmentRow list"
  attBusy :: bool
  mapRef :: "map_state option"
  drawRef :: "draw_state option"
  dragMarkerRef :: "((real \<times> real) \<times> bool) option"

definition setStatusMsg :: "string \<Rightarrow> ui \<Rightarrow> ui" where
  "setStatusMsg m u = u\<lparr>statusMsg := m, statusLog := statusLog u @ [m]\<rparr>"

text \<open>
  The state of the component once the map is set up: every \<open>useState\<close> at its initial
  value, the draw control in place, and the three highlight layers added by
  \<open>ensureSourcesAndLayers\<close> with the operand \<open>-1\<close>.
\<close>

definition initial_ui :: ui where
  "initial_ui =
     \<lparr>statusMsg = [], statusLog = [], busy = False,
      selectedId = None, selectedGeomType = None,
      panelOpen = True, panelTab = TabCreate, fabOpen = False,
      fc = [], createMode = CreateOff,
      name = [], rtype = ''site'', rstatus = ''active'',
      propsText = [CHR ''{'', CHR 0x22] @ ''source'' @ [CHR 0x22, CHR '':'', CHR 0x22] @ ''map''
                  @ [CHR 0x22, CHR ''}''],
      lon = [], lat = [], createFiles = [],
      movePointMode = MoveOff, stageLon = [], stageLat = [],
      editing = None, fltType = ''all'', fltStatus = ''all'', q = [],
      attachments = [], attBusy = False,
      mapRef = Some \<lparr>styleLoaded = True, point_selected = - 1, route_selected = - 1,
                      geofence_selected_outline = - 1\<rparr>,
      drawRef = Some \<lparr>draw_mode = ''simple_select'', draw_features = []\<rparr>,
      dragMarkerRef = None\<rparr>"

section \<open>Validation\<close>

text \<open>
  \<^verbatim>\<open>
  const must = (v: string) => v.trim().length > 0;
  const isNum = (v: string) => !Number.isNaN(parseFloat(v));
  const formValid = must(name) && must(rstatus) && must(rtype) && isNum(lon) && isNum(lat);
  \<close>
\<close>

definition must :: "string \<Rightarrow> bool" where
  "must v = (length (trim v) > 0)"

definition isNum :: "env \<Rightarrow> string \<Rightarrow> bool" where
  "isNum E v = (parseFloat E v \<noteq> None)"

definition formValid :: "env \<Rightarrow> ui \<Rightarrow> bool" where
  "formValid E u = (must (name u) \<and> must (rstatus u) \<and> must (rtype u)
                    \<and> isNum E (lon u) \<and> isNum E (lat u))"

text \<open>A state variable holding a number or \<open>null\<close>, tested as \<open>if (selectedId)\<close>.\<close>

definition id_truthy :: "int option \<Rightarrow> bool" where
  "id_truthy i = (case i of None \<Rightarrow> False | Some n \<Rightarrow> n \<noteq> 0)"

section \<open>Attachments\<close>

definition ATT_BUCKET :: string where
  "ATT_BUCKET = ''attachments''"

definition MAX_IMG_MB :: nat where
  "MAX_IMG_MB = 20"

text \<open>
  \<^verbatim>\<open>
  async function loadAttachments(resourceId: number) {
    setAttBusy(true);
    const { data, error } = await supabase.from("resource_files").select("*")
      .eq("resource_id", resourceId).order("created_at", { ascending: false });
    setAttBusy(false);
    if (error) { ...; setStatusMsg("Load attachments failed: " + (error.message ?? "unknown")); return; }
    setAttachments((data as AttachmentRow[]) || []);
  }
  \<close>
\<close>

definition loadAttachments :: "env \<Rightarrow> int \<Rightarrow> ui \<times> world \<Rightarrow> ui \<times> world" where
  "loadAttachments E resourceId s =
     (case s of (u, w0) \<Rightarrow>
        (let req = SelectResourceFiles resourceId; w = send req w0 in
         case fails E req of
           Some e \<Rightarrow>
             (setStatusMsg (''Load attachments failed: '' @ message_or_unknown e)
                (u\<lparr>attBusy := False\<rparr>), w)
         | None \<Rightarrow>
             (u\<lparr>attBusy := False, attachments := select_resource_files resourceId w\<rparr>, w)))"

text \<open>\<open>function isImageFile(f: File) { return f && f.type && f.type.startsWith("image/"); }\<close>\<close>

definition isImageFile :: "File \<Rightarrow> bool" where
  "isImageFile f = (file_type f \<noteq> [] \<and> startsWith (file_type f) ''image/'')"

definition upload_path :: "env \<Rightarrow> world \<Rightarrow> int \<Rightarrow> File \<Rightarrow> string" where
  "upload_path E w resourceId file =
     ''resource/'' @ show_int resourceId @ ''/'' @ show_nat (Date_now E (length (requests w)))
       @ ''-'' @ file_name file"

definition size_mb :: "File \<Rightarrow> real" where
  "size_mb file = real (file_size file) / (1024 * 1024)"

definition skipped_non_image :: "File \<Rightarrow> string" where
  "skipped_non_image file = ''Skipped non-image: '' @ file_name file"

definition skipped_too_large :: "env \<Rightarrow> File \<Rightarrow> string" where
  "skipped_too_large E file =
     ''Skipped '' @ file_name file @ '': '' @ toFixed E 1 (size_mb file) @ '' MB > ''
       @ show_nat MAX_IMG_MB"

text \<open>
  The body of the \<open>try\<close> block of \<open>uploadFilesForResource\<close>, up to the end of the loop:
  \<^verbatim>\<open>
  for (const file of files) {
    if (!isImageFile(file)) { setStatusMsg("Skipped non-image: " + file.name); continue; }
    const mb = file.size / (1024 * 1024);
    if (mb > MAX_IMG_MB) { setStatusMsg(`Skipped ${file.name}: ${(mb).toFixed(1)} MB > ${MAX_IMG_MB}`); continue; }
    const path = `resource/${resourceId}/${Date.now()}-${file.name}`;
    const { error: upErr } = await supabase.storage.from(ATT_BUCKET).upload(path, file, {
      contentType: file.type, upsert: false });
    if (upErr) throw upErr;
    const { error: insErr } = await supabase.from("resource_files").insert({
      resource_id: resourceId, path, bucket: ATT_BUCKET, filename: file.name,
      content_type: file.type, size: file.size });
    if (insErr) throw insErr;
  }
  \<close>
  The first component of the result is the error thrown, if one was.
\<close>

fun upload_loop :: "env \<Rightarrow> int \<Rightarrow> File list \<Rightarrow> ui \<times> world \<Rightarrow> error option \<times> ui \<times> world" where
  "upload_loop E resourceId [] (u, w) = (None, u, w)"
| "upload_loop E resourceId (file # files) (u, w) =
     (if \<not> isImageFile file
        then upload_loop E resourceId files (setStatusMsg (skipped_non_image file) u, w)
      else if size_mb file > real MAX_IMG_MB
        then upload_loop E resourceId files (setStatusMsg (skipped_too_large E file) u, w)
      else
        (case storage_upload E ATT_BUCKET (upload_path E w resourceId file) file w of
           (Some upErr, w1) \<Rightarrow> (Some upErr, u, w1)
         | (None, w1) \<Rightarrow>
             (case insert_resource_file E resourceId (upload_path E w resourceId file) ATT_BUCKET
                     (file_name file) (file_type file) (file_size file) w1 of
                (Some insErr, w2) \<Rightarrow> (Some insErr, u, w2)
              | (None, w2) \<Rightarrow> upload_loop E resourceId files (u, w2))))"

text \<open>
  \<^verbatim>\<open>
  async function uploadFilesForResource(resourceId: number, files: File[]) {
    if (!files.length) return;
    setAttBusy(true);
    try {
      for (const file of files) { ... }
      setStatusMsg("Attachments uploaded.");
      await loadAttachments(resourceId);
    } catch (e: any) {
      console.error(e);
      setStatusMsg("Upload failed: " + (e?.message ?? "unknown"));
    } finally { setAttBusy(false); }
  }
  \<close>
\<close>

definition uploadFilesForResource ::
  "env \<Rightarrow> int \<Rightarrow> File list \<Rightarrow> ui \<times> world \<Rightarrow> ui \<times> world" where
  "uploadFilesForResource E resourceId files s =
     (case s of (u, w) \<Rightarrow>
        if files = [] then (u, w)
        else
          (case upload_loop E resourceId files (u\<lparr>attBusy := True\<rparr>, w) of
             (None, u1, w1) \<Rightarrow>
               (case loadAttachments E resourceId (setStatusMsg ''Attachments uploaded.'' u1, w1) of
                  (u2, w2) \<Rightarrow> (u2\<lparr>attBusy := False\<rparr>, w2))
           | (Some e, u1, w1) \<Rightarrow>
               ((setStatusMsg (''Upload failed: '' @ message_or_unknown e) u1)\<lparr>attBusy := False\<rparr>,
                w1)))"

section \<open>Refreshing the snapshot\<close>

text \<open>
  The callback of \<open>filter\<close> in \<open>refreshData\<close>:
  \<^verbatim>\<open>
  if (!q.trim()) return true;
  const needle = q.toLowerCase();
  const hay = `${row.name} ${row.rtype} ${row.status} ${JSON.stringify(row.properties || {})}`.toLowerCase();
  return hay.includes(needle);
  \<close>
\<close>

definition haystack :: "geojson_row \<Rightarrow> string" where
  "haystack row =
     toLowerCase (v_name row @ '' '' @ v_rtype row @ '' '' @ v_status row @ '' ''
                  @ JSON_stringify (or_empty (v_properties row)))"

definition row_matches :: "string \<Rightarrow> geojson_row \<Rightarrow> bool" where
  "row_matches qtext row =
     (if trim qtext = [] then True else str_includes (haystack row) (toLowerCase qtext))"

text \<open>
  The callback of \<open>map\<close> in \<open>refreshData\<close>:
  \<^verbatim>\<open>
  ({ type: "Feature", id: row.id, geometry: row.geometry,
     properties: { id: row.id, name: row.name, rtype: row.rtype, status: row.status,
                   ...(row.properties || {}) } })
  \<close>
\<close>

definition to_feature :: "geojson_row \<Rightarrow> feature" where
  "to_feature row =
     \<lparr>f_id = v_id row, f_geometry = v_geometry row,
      f_properties =
        assign [(''id'', JNum (v_id row)), (''name'', JStr (v_name row)),
                (''rtype'', JStr (v_rtype row)), (''status'', JStr (v_status row))]
               (spread (or_empty (v_properties row)))\<rparr>"

text \<open>
  \<^verbatim>\<open>
  map.setFilter("point-selected", [..., ["==", ["get","id"], selectedGeomType === "Point" ? (selectedId ?? -1) : -1]]);
  map.setFilter("route-selected", [..., ["==", ["get","id"], selectedGeomType === "LineString" ? (selectedId ?? -1) : -1]]);
  map.setFilter("geofence-selected-outline", [..., ["==", ["get","id"], selectedGeomType === "Polygon" ? (selectedId ?? -1) : -1]]);
  \<close>
\<close>

definition refresh_filters :: "string option \<Rightarrow> int option \<Rightarrow> map_state \<Rightarrow> map_state" where
  "refresh_filters gt sel m =
     m\<lparr>point_selected := (if gt = Some ''Point'' then coalesce sel (- 1) else - 1),
       route_selected := (if gt = Some ''LineString'' then coalesce sel (- 1) else - 1),
       geofence_selected_outline := (if gt = Some ''Polygon'' then coalesce sel (- 1) else - 1)\<rparr>"

definition eq_filter :: "string \<Rightarrow> string option" where
  "eq_filter flt = (if flt \<noteq> ''all'' then Some flt else None)"

text \<open>
  \<^verbatim>\<open>
  const refreshData = useCallback(async () => {
    let query = supabase.from("resources_geojson").select("*").order("id", { ascending: false });
    if (fltType !== "all") query = query.eq("rtype", fltType);
    if (fltStatus !== "all") query = query.eq("status", fltStatus);
    setBusy(true);
    const { data, error } = await query;
    setBusy(false);
    if (error) { ...; setStatusMsg("Load failed: " + (error.message ?? "unknown")); return; }
    const filtered = (data || []).filter(...);
    setFc({ type: "FeatureCollection", features: filtered.map(...) });
    const map = mapRef.current;
    if (map && map.isStyleLoaded()) { map.setFilter(...); map.setFilter(...); map.setFilter(...); }
    if (selectedId) await loadAttachments(selectedId);
  }, [fltType, fltStatus, q, selectedId, selectedGeomType]);
  \<close>
  A handler is modelled as running to its end before the next one starts, and as
  reading the state current when it starts: the state of the render that made it.
\<close>

definition refreshData :: "env \<Rightarrow> ui \<times> world \<Rightarrow> ui \<times> world" where
  "refreshData E s =
     (case s of (u, w0) \<Rightarrow>
        (let req = SelectResources (eq_filter (fltType u)) (eq_filter (fltStatus u));
             w = send req w0 in
         case fails E req of
           Some e \<Rightarrow>
             (setStatusMsg (''Load failed: '' @ message_or_unknown e) (u\<lparr>busy := False\<rparr>), w)
         | None \<Rightarrow>
             (let data = select_resources E (eq_filter (fltType u)) (eq_filter (fltStatus u)) w;
                  filtered = filter (row_matches (q u)) data;
                  u1 = u\<lparr>busy := False, fc := map to_feature filtered\<rparr>;
                  u2 = u1\<lparr>mapRef :=
                          map_option
                            (\<lambda>m. if styleLoaded m
                                  then refresh_filters (selectedGeomType u1) (selectedId u1) m
                                  else m)
                            (mapRef u1)\<rparr>
              in (case selectedId u2 of
                    None \<Rightarrow> (u2, w)
                  | Some i \<Rightarrow> if i \<noteq> 0 then loadAttachments E i (u2, w) else (u2, w)))))"

text \<open>
  A callback keeps the state variables of the render that made it. \<open>refreshData\<close> reads
  \<open>fltType\<close>, \<open>fltStatus\<close>, \<open>q\<close>, \<open>selectedId\<close> and \<open>selectedGeomType\<close> that way and
  writes none of them; the refs and the setters are shared by all renders.
  \<open>refreshData_at c\<close> is the callback made by the render with the state \<open>c\<close>, run in the
  current state. It differs from \<open>refreshData\<close> where a handler calls it after having
  set one of the five variables itself, and where the handler was bound by an earlier
  render.
\<close>

definition refreshData_at :: "ui \<Rightarrow> env \<Rightarrow> ui \<times> world \<Rightarrow> ui \<times> world" where
  "refreshData_at c E s =
     (case s of (u, w) \<Rightarrow>
        (case refreshData E
                (u\<lparr>fltType := fltType c, fltStatus := fltStatus c, q := q c,
                   selectedId := selectedId c, selectedGeomType := selectedGeomType c\<rparr>, w) of
           (u1, w1) \<Rightarrow>
             (u1\<lparr>fltType := fltType u, fltStatus := fltStatus u, q := q u,
                 selectedId := selectedId u, selectedGeomType := selectedGeomType u\<rparr>, w1)))"

text \<open>
  What a highlight layer draws. \<open>point-selected\<close> reads the source of the Point
  features (\<open>geometry.type === "Point"\<close>) and keeps those with no \<open>point_count\<close> whose
  \<open>id\<close> property equals the operand; the other two read the source of the remaining
  features and keep those of geometry type \<open>LineString\<close> (\<open>Polygon\<close>) whose \<open>id\<close>
  property equals the operand.
\<close>

definition get_prop :: "feature \<Rightarrow> string \<Rightarrow> json option" where
  "get_prop f k = map_of (f_properties f) k"

definition point_selected_shows :: "map_state \<Rightarrow> feature \<Rightarrow> bool" where
  "point_selected_shows m f =
     (gtype (f_geometry f) = ''Point'' \<and> get_prop f ''point_count'' = None
      \<and> get_prop f ''id'' = Some (JNum (point_selected m)))"

definition route_selected_shows :: "map_state \<Rightarrow> feature \<Rightarrow> bool" where
  "route_selected_shows m f =
     (gtype (f_geometry f) \<noteq> ''Point'' \<and> gtype (f_geometry f) = ''LineString''
      \<and> get_prop f ''id'' = Some (JNum (route_selected m)))"

definition geofence_selected_outline_shows :: "map_state \<Rightarrow> feature \<Rightarrow> bool" where
  "geofence_selected_outline_shows m f =
     (gtype (f_geometry f) \<noteq> ''Point'' \<and> gtype (f_geometry f) = ''Polygon''
      \<and> get_prop f ''id'' = Some (JNum (geofence_selected_outline m)))"

section \<open>Selection\<close>

text \<open>\<open>String(v)\<close> for a JSON value; inside an array \<open>null\<close> prints as the empty string.\<close>

primrec js_String :: "json \<Rightarrow> string" where
  "js_String JNull = ''null''"
| "js_String (JBool b) = (if b then ''true'' else ''false'')"
| "js_String (JNum n) = show_int n"
| "js_String (JStr s) = s"
| "js_String (JArr xs) =
     commas (map (\<lambda>vs. if fst vs = JNull then [] else snd vs) (zip xs (map js_String xs)))"
| "js_String (JObj kvs) = ''[object Object]''"

text \<open>\<open>String(v ?? d)\<close> for a property that may be missing or \<open>null\<close>.\<close>

definition string_or :: "json option \<Rightarrow> string \<Rightarrow> string" where
  "string_or v d = (case v of None \<Rightarrow> d | Some JNull \<Rightarrow> d | Some j \<Rightarrow> js_String j)"

text \<open>A number or \<open>null\<close> as compared by \<open>x.properties?.id === id\<close>.\<close>

definition id_json :: "int option \<Rightarrow> json" where
  "id_json i = (case i of None \<Rightarrow> JNull | Some n \<Rightarrow> JNum n)"

text \<open>\<open>fc.features.find((x) => x.properties?.id === id)\<close>\<close>

definition find_feature :: "int option \<Rightarrow> ui \<Rightarrow> feature option" where
  "find_feature i u = find (\<lambda>x. get_prop x ''id'' = Some (id_json i)) (fc u)"

text \<open>
  \<open>const [x, y] = f.geometry.coordinates\<close> followed by
  \<open>setStageLon(String(x.toFixed ? x.toFixed(6) : x))\<close> and the same for \<open>y\<close>. The
  coordinates of a Point geometry are one position; for coordinates of any other shape
  the model leaves the two fields as they are.
\<close>

definition stage_from :: "env \<Rightarrow> geometry \<Rightarrow> ui \<Rightarrow> ui" where
  "stage_from E g u =
     (case coordinates g of
        Pos x y \<Rightarrow> u\<lparr>stageLon := toFixed E 6 x, stageLat := toFixed E 6 y\<rparr>
      | Nest cs \<Rightarrow> u)"

definition own_properties :: "feature \<Rightarrow> json" where
  "own_properties f =
     JObj (filter (\<lambda>kv. fst kv \<notin> {''id'', ''name'', ''rtype'', ''status''}) (f_properties f))"

text \<open>\<open>a || b\<close> for strings that may be missing.\<close>

definition or_string :: "string option \<Rightarrow> string option \<Rightarrow> string option" where
  "or_string a b = (case a of None \<Rightarrow> b | Some t \<Rightarrow> if t = [] then b else Some t)"

text \<open>
  The three \<open>setFilter\<close> calls of \<open>selectById\<close>:
  \<^verbatim>\<open>
  map.setFilter("point-selected", [..., ["==", ["get","id"], gtype === "Point" ? id : -1]]);
  map.setFilter("route-selected", [..., ["==", ["get","id"], gtype === "LineString" ? id : -1]]);
  map.setFilter("geofence-selected-outline", [..., ["==", ["get","id"], gtype === "Polygon" ? id : -1]]);
  \<close>
\<close>

definition select_filters :: "string option \<Rightarrow> int \<Rightarrow> map_state \<Rightarrow> map_state" where
  "select_filters gt i m =
     m\<lparr>point_selected := (if gt = Some ''Point'' then i else - 1),
       route_selected := (if gt = Some ''LineString'' then i else - 1),
       geofence_selected_outline := (if gt = Some ''Polygon'' then i else - 1)\<rparr>"

text \<open>
  \<^verbatim>\<open>
  async function selectById(id: number, geomType?: "Point"|"LineString"|"Polygon") {
    const map = mapRef.current; if (!map) return;
    const f = fc.features.find((x) => x.properties?.id === id);
    const gtype = (geomType || f?.geometry?.type || null) as any;
    setSelectedId(id); setSelectedGeomType(gtype);
    setPanelOpen(true); setPanelTab("edit"); setFabOpen(false);
    if (f) {
      setName(String(f.properties?.name ?? ""));
      setRtype((f.properties?.rtype as ResourceType) ?? "site");
      setRstatus((f.properties?.status as ResourceStatus) ?? "active");
      const p = { ...f.properties }; delete p.id; delete p.name; delete p.rtype; delete p.status;
      setPropsText(JSON.stringify(p || {}, null, 2));
      if (gtype === "Point") { const [x, y] = f.geometry.coordinates; setStageLon(..); setStageLat(..); }
      else { setStageLon(""); setStageLat(""); }
    }
    if (map.isStyleLoaded()) { map.setFilter(...); map.setFilter(...); map.setFilter(...); }
    setStatusMsg(`Selected id=${id}`);
    await loadAttachments(id);
  }
  \<close>
  The variables \<open>rtype\<close> and \<open>rstatus\<close> are strings in the model: a property of another
  JSON type is kept as its string form.
\<close>

definition fill_form :: "env \<Rightarrow> string option \<Rightarrow> feature \<Rightarrow> ui \<Rightarrow> ui" where
  "fill_form E gt f u =
     (let u1 = u\<lparr>name := string_or (get_prop f ''name'') [],
                 rtype := string_or (get_prop f ''rtype'') ''site'',
                 rstatus := string_or (get_prop f ''status'') ''active'',
                 propsText := JSON_stringify_indent E (own_properties f)\<rparr>
      in if gt = Some ''Point'' then stage_from E (f_geometry f) u1
         else u1\<lparr>stageLon := [], stageLat := []\<rparr>)"

definition selectById :: "env \<Rightarrow> int \<Rightarrow> string option \<Rightarrow> ui \<times> world \<Rightarrow> ui \<times> world" where
  "selectById E i geomType s =
     (case s of (u, w) \<Rightarrow>
        (case mapRef u of
           None \<Rightarrow> (u, w)
         | Some m \<Rightarrow>
             (let f = find_feature (Some i) u;
                  gt = or_string geomType
                         (or_string (map_option (\<lambda>x. gtype (f_geometry x)) f) None);
                  u1 = u\<lparr>selectedId := Some i, selectedGeomType := gt,
                          panelOpen := True, panelTab := TabEdit, fabOpen := False\<rparr>;
                  u2 = (case f of None \<Rightarrow> u1 | Some x \<Rightarrow> fill_form E gt x u1);
                  u3 = u2\<lparr>mapRef := Some (if styleLoaded m then select_filters gt i m else m)\<rparr>;
                  u4 = setStatusMsg (''Selected id='' @ show_int i) u3
              in loadAttachments E i (u4, w))))"

text \<open>
  \<open>selectById\<close> as made by the render with the state \<open>c\<close>, run in the current state: it
  looks the id up in the snapshot of that render. The other variables it reads are refs.
\<close>

definition selectById_at ::
  "ui \<Rightarrow> env \<Rightarrow> int \<Rightarrow> string option \<Rightarrow> ui \<times> world \<Rightarrow> ui \<times> world" where
  "selectById_at c E i geomType s =
     (case s of (u, w) \<Rightarrow>
        (case selectById E i geomType (u\<lparr>fc := fc c\<rparr>, w) of
           (u1, w1) \<Rightarrow> (u1\<lparr>fc := fc u\<rparr>, w1)))"

section \<open>Moving a point\<close>

text \<open>
  \<^verbatim>\<open>
  function clearDragMarker() {
    if (dragMarkerRef.current) { dragMarkerRef.current.remove(); dragMarkerRef.current = null; }
  }
  const cancelMove = useCallback(() => {
    setMovePointMode("off");
    clearDragMarker();
    const f = fc.features.find((x) => x.properties?.id === selectedId);
    if (f?.geometry?.type === "Point") { const [x, y] = f.geometry.coordinates; setStageLon(..); setStageLat(..); }
    setStatusMsg("Move canceled.");
  }, [fc, selectedId]);
  \<close>
\<close>

definition clearDragMarker :: "ui \<Rightarrow> ui" where
  "clearDragMarker u = u\<lparr>dragMarkerRef := None\<rparr>"

definition cancelMove :: "env \<Rightarrow> ui \<Rightarrow> ui" where
  "cancelMove E u =
     (let u1 = clearDragMarker (u\<lparr>movePointMode := MoveOff\<rparr>);
          u2 = (case find_feature (selectedId u1) u1 of
                  None \<Rightarrow> u1
                | Some f \<Rightarrow>
                    if gtype (f_geometry f) = ''Point'' then stage_from E (f_geometry f) u1 else u1)
      in setStatusMsg ''Move canceled.'' u2)"

text \<open>
  \<^verbatim>\<open>
  const applyMove = useCallback(async () => {
    if (!selectedId || selectedGeomType !== "Point") return;
    if (!isNum(stageLon) || !isNum(stageLat)) { setStatusMsg("Invalid coordinates."); return; }
    const lo = parseFloat(stageLon), la = parseFloat(stageLat);
    setBusy(true); setStatusMsg("Applying move...");
    const { error } = await supabase.rpc("update_resource", {
      p_id: selectedId, p_geometry: { type: "Point", coordinates: [lo, la] } });
    setBusy(false);
    if (error) { ...; setStatusMsg("Move failed: " + (error.message ?? "unknown")); return; }
    setStatusMsg("Point moved.");
    setMovePointMode("off");
    clearDragMarker();
    await refreshData();
  }, [selectedId, selectedGeomType, stageLon, stageLat, refreshData]);
  \<close>
  (In the status messages, characters outside ASCII are written with ASCII ones.)
\<close>

definition applyMove :: "env \<Rightarrow> ui \<times> world \<Rightarrow> ui \<times> world" where
  "applyMove E s =
     (case s of (u, w) \<Rightarrow>
        if \<not> id_truthy (selectedId u) \<or> selectedGeomType u \<noteq> Some ''Point'' then (u, w)
        else if \<not> isNum E (stageLon u) \<or> \<not> isNum E (stageLat u)
          then (setStatusMsg ''Invalid coordinates.'' u, w)
        else
          (case (selectedId u, parseFloat E (stageLon u), parseFloat E (stageLat u)) of
             (Some i, Some lo, Some la) \<Rightarrow>
               (let u1 = setStatusMsg ''Applying move...'' (u\<lparr>busy := True\<rparr>) in
                case rpc_update_resource E i None None None None
                       (Some \<lparr>gtype = ''Point'', coordinates = Pos lo la\<rparr>) w of
                  (Some e, w1) \<Rightarrow>
                    (setStatusMsg (''Move failed: '' @ message_or_unknown e) (u1\<lparr>busy := False\<rparr>), w1)
                | (None, w1) \<Rightarrow>
                    refreshData E
                      (clearDragMarker
                         ((setStatusMsg ''Point moved.'' (u1\<lparr>busy := False\<rparr>))\<lparr>movePointMode := MoveOff\<rparr>),
                       w1))
           | _ \<Rightarrow> (u, w)))"

section \<open>Clicks on the feature layers\<close>

text \<open>\<open>if (editingRef.current) { drawRef.current?.deleteAll(); setEditing(null); }\<close>\<close>

definition drop_editing :: "ui \<Rightarrow> ui" where
  "drop_editing u =
     (if editing u \<noteq> None
      then u\<lparr>drawRef := map_option deleteAll (drawRef u), editing := None\<rparr>
      else u)"

text \<open>
  \<open>const f = e.features?.[0]; if (f && typeof f.properties?.id === "number") ...\<close>:
  the id of the clicked feature, when it has a number as its \<open>id\<close> property.
\<close>

definition clicked_id :: "feature option \<Rightarrow> int option" where
  "clicked_id c =
     (case c of
        None \<Rightarrow> None
      | Some f \<Rightarrow> (case get_prop f ''id'' of Some (JNum n) \<Rightarrow> Some n | _ \<Rightarrow> None))"

text \<open>
  \<^verbatim>\<open>
  const selectPoint = async (e: any) => {
    if (stateRef.current.createMode !== "off") return;
    if (stateRef.current.movePointMode !== "off" && stateRef.current.movePointMode !== "pick") return;
    const f = e.features?.[0];
    if (f && typeof f.properties?.id === "number") {
      if (editingRef.current) { drawRef.current?.deleteAll(); setEditing(null); }
      selectById(f.properties.id, "Point");
    }
  };
  const selectRoute = (e: any) => {
    if (stateRef.current.createMode !== "off") return;
    if (stateRef.current.movePointMode !== "off") return;
    const f = e.features?.[0];
    if (f && typeof f.properties?.id === "number") {
      if (editingRef.current) { drawRef.current?.deleteAll(); setEditing(null); }
      selectById(f.properties.id, "LineString");
    }
  };
  const selectFence = (e: any) => { ... the same, with "Polygon" ... };
  map.on("click", "points", selectPoint);        map.on("click", "point-selected", selectPoint);
  map.on("click", "routes", selectRoute);
  map.on("click", "geofences-fill", selectFence); map.on("click", "geofences-outline", selectFence);
  \<close>
  The three handlers are made by \<open>bindLayerEvents\<close>, a callback with an empty dependency
  list that the handlers of the map's \<open>load\<close> and \<open>style.load\<close> call: they keep the
  \<open>selectById\<close> of the first render. The modes come from \<open>stateRef\<close> and the edit
  session from \<open>editingRef\<close>, which are current.
\<close>

definition selectPoint :: "env \<Rightarrow> feature option \<Rightarrow> ui \<times> world \<Rightarrow> ui \<times> world" where
  "selectPoint E e s =
     (case s of (u, w) \<Rightarrow>
        if createMode u \<noteq> CreateOff then (u, w)
        else if movePointMode u \<noteq> MoveOff \<and> movePointMode u \<noteq> MovePick then (u, w)
        else (case clicked_id e of
                None \<Rightarrow> (u, w)
              | Some i \<Rightarrow> selectById_at initial_ui E i (Some ''Point'') (drop_editing u, w)))"

definition selectRoute :: "env \<Rightarrow> feature option \<Rightarrow> ui \<times> world \<Rightarrow> ui \<times> world" where
  "selectRoute E e s =
     (case s of (u, w) \<Rightarrow>
        if createMode u \<noteq> CreateOff then (u, w)
        else if movePointMode u \<noteq> MoveOff then (u, w)
        else (case clicked_id e of
                None \<Rightarrow> (u, w)
              | Some i \<Rightarrow> selectById_at initial_ui E i (Some ''LineString'') (drop_editing u, w)))"

definition selectFence :: "env \<Rightarrow> feature option \<Rightarrow> ui \<times> world \<Rightarrow> ui \<times> world" where
  "selectFence E e s =
     (case s of (u, w) \<Rightarrow>
        if createMode u \<noteq> CreateOff then (u, w)
        else if movePointMode u \<noteq> MoveOff then (u, w)
        else (case clicked_id e of
                None \<Rightarrow> (u, w)
              | Some i \<Rightarrow> selectById_at initial_ui E i (Some ''Polygon'') (drop_editing u, w)))"

text \<open>The layer a click lands on, and the handler bound to it.\<close>

datatype layer = Points | PointSelected | Routes | GeofencesFill | GeofencesOutline

fun layer_click :: "env \<Rightarrow> layer \<Rightarrow> feature option \<Rightarrow> ui \<times> world \<Rightarrow> ui \<times> world" where
  "layer_click E Points e s = selectPoint E e s"
| "layer_click E PointSelected e s = selectPoint E e s"
| "layer_click E Routes e s = selectRoute E e s"
| "layer_click E GeofencesFill e s = selectFence E e s"
| "layer_click E GeofencesOutline e s = selectFence E e s"

fun layer_kind :: "layer \<Rightarrow> string" where
  "layer_kind Points = ''Point''"
| "layer_kind PointSelected = ''Point''"
| "layer_kind Routes = ''LineString''"
| "layer_kind GeofencesFill = ''Polygon''"
| "layer_kind GeofencesOutline = ''Polygon''"

section \<open>Editing the geometry of a line or polygon\<close>

text \<open>
  \<^verbatim>\<open>
  function startEditGeometry() {
    if (!selectedId || selectedGeomType === "Point") return;
    const f = fc.features.find((x) => x.properties?.id === selectedId);
    if (!f) { setStatusMsg("No geometry to edit."); return; }
    const draw = drawRef.current as any; if (!draw) return;
    draw.changeMode("simple_select");
    draw.deleteAll();
    const drawId = draw.add({ type: "Feature", properties: {}, geometry: f.geometry });
    draw.changeMode("direct_select", { featureId: drawId });
    setEditing({ resourceId: selectedId, drawId });
    setCreateMode("off");
    setPanelOpen(true); setPanelTab("edit"); setFabOpen(false);
    setStatusMsg("Editing geometry - drag vertices then Save.");
  }
  function cancelEditGeometry() {
    const draw = drawRef.current as any; if (draw) { draw.changeMode("simple_select"); draw.deleteAll(); }
    setEditing(null);
    setStatusMsg("Geometry edit canceled.");
  }
  \<close>
\<close>

definition draw_add :: "string \<Rightarrow> geometry \<Rightarrow> draw_state \<Rightarrow> draw_state" where
  "draw_add drawId g d = d\<lparr>draw_features := draw_features d @ [(drawId, g)]\<rparr>"

definition startEditGeometry :: "env \<Rightarrow> ui \<Rightarrow> ui" where
  "startEditGeometry E u =
     (if \<not> id_truthy (selectedId u) \<or> selectedGeomType u = Some ''Point'' then u
      else
        (case (selectedId u, find_feature (selectedId u) u) of
           (Some i, Some f) \<Rightarrow>
             (case drawRef u of
                None \<Rightarrow> u
              | Some d \<Rightarrow>
                  (let drawId = draw_new_id E;
                       d1 = changeMode ''direct_select''
                              (draw_add drawId (f_geometry f)
                                 (deleteAll (changeMode ''simple_select'' d)))
                   in setStatusMsg ''Editing geometry - drag vertices then Save.''
                        (u\<lparr>drawRef := Some d1, editing := Some (i, drawId),
                           createMode := CreateOff, panelOpen := True, panelTab := TabEdit,
                           fabOpen := False\<rparr>)))
         | _ \<Rightarrow> setStatusMsg ''No geometry to edit.'' u))"

definition cancelEditGeometry :: "ui \<Rightarrow> ui" where
  "cancelEditGeometry u =
     setStatusMsg ''Geometry edit canceled.''
       (u\<lparr>drawRef := map_option (\<lambda>d. deleteAll (changeMode ''simple_select'' d)) (drawRef u),
          editing := None\<rparr>)"

section \<open>Creating resources\<close>

text \<open>
  \<^verbatim>\<open>
  function startCreate(mode: CreateMode) {
    const draw = drawRef.current as any;
    if (draw) { draw.changeMode("simple_select"); draw.deleteAll(); }
    cancelMove();
    setSelectedId(null);
    setSelectedGeomType(null);
    setPanelOpen(true);
    setPanelTab("create");
    setFabOpen(false);
    setCreateMode(mode);
    setStatusMsg(
      mode === "point" ? "Click the map to fill lon/lat, then 'Add point'." :
      mode === "geofence" ? "Draw a polygon with the toolbar." :
      "Draw a line with the toolbar.");
    if (mode === "geofence") drawRef.current?.changeMode("draw_polygon");
    if (mode === "route") drawRef.current?.changeMode("draw_line_string");
  }
  \<close>
\<close>

definition startCreate_msg :: "CreateMode \<Rightarrow> string" where
  "startCreate_msg mode =
     (if mode = CreatePoint then ''Click the map to fill lon/lat, then 'Add point'.''
      else if mode = CreateGeofence then ''Draw a polygon with the toolbar.''
      else ''Draw a line with the toolbar.'')"

definition startCreate :: "env \<Rightarrow> CreateMode \<Rightarrow> ui \<Rightarrow> ui" where
  "startCreate E mode u =
     (let u1 = u\<lparr>drawRef :=
                  map_option (\<lambda>d. deleteAll (changeMode ''simple_select'' d)) (drawRef u)\<rparr>;
          u2 = cancelMove E u1;
          u3 = u2\<lparr>selectedId := None, selectedGeomType := None, panelOpen := True,
                  panelTab := TabCreate, fabOpen := False, createMode := mode\<rparr>;
          u4 = setStatusMsg (startCreate_msg mode) u3;
          u5 = (if mode = CreateGeofence
                then u4\<lparr>drawRef := map_option (changeMode ''draw_polygon'') (drawRef u4)\<rparr>
                else u4)
      in if mode = CreateRoute
         then u5\<lparr>drawRef := map_option (changeMode ''draw_line_string'') (drawRef u5)\<rparr>
         else u5)"

text \<open>
  \<open>propsText?.trim() ? JSON.parse(propsText) : null\<close>; \<open>None\<close> where \<open>JSON.parse\<close>
  throws.
\<close>

definition parse_props :: "env \<Rightarrow> string \<Rightarrow> json option" where
  "parse_props E t = (if trim t \<noteq> [] then JSON_parse E t else Some JNull)"

text \<open>
  The tail of a create, with the files staged in the form:
  \<^verbatim>\<open>
  const newId = data?.id as number;
  if (createFiles.length > 0 && newId) {
    await uploadFilesForResource(newId, createFiles);
    setCreateFiles([]);
  }
  \<close>
\<close>

definition upload_staged :: "env \<Rightarrow> int \<Rightarrow> ui \<times> world \<Rightarrow> ui \<times> world" where
  "upload_staged E newId s =
     (case s of (u, w) \<Rightarrow>
        if length (createFiles u) > 0 \<and> newId \<noteq> 0
        then (case uploadFilesForResource E newId (createFiles u) (u, w) of
                (u1, w1) \<Rightarrow> (u1\<lparr>createFiles := []\<rparr>, w1))
        else (u, w))"

text \<open>
  \<^verbatim>\<open>
  async function createFromFormPoint() {
    if (!formValid) { setStatusMsg("Missing or invalid fields."); return; }
    let propsJson: any = null;
    try { propsJson = propsText?.trim() ? JSON.parse(propsText) : null; }
    catch { setStatusMsg("Properties JSON invalid."); return; }
    const lo = parseFloat(lon), la = parseFloat(lat);
    setBusy(true); setStatusMsg("Creating point...");
    const { data, error } = await supabase.from("resources")
      .insert([{ name: name.trim(), rtype, status: rstatus, properties: propsJson,
                 geometry: { type: "Point", coordinates: [lo, la] } }])
      .select("id").single();
    setBusy(false);
    if (error) { ...; setStatusMsg("Create failed: " + (error.message ?? "unknown")); return; }
    const newId = data?.id as number;
    if (createFiles.length > 0 && newId) { ... }
    setStatusMsg("Created.");
    setLon(""); setLat("");
    await refreshData();
  }
  \<close>
\<close>

definition createFromFormPoint :: "env \<Rightarrow> ui \<times> world \<Rightarrow> ui \<times> world" where
  "createFromFormPoint E s =
     (case s of (u, w) \<Rightarrow>
        if \<not> formValid E u then (setStatusMsg ''Missing or invalid fields.'' u, w)
        else
          (case parse_props E (propsText u) of
             None \<Rightarrow> (setStatusMsg ''Properties JSON invalid.'' u, w)
           | Some propsJson \<Rightarrow>
               (case (parseFloat E (lon u), parseFloat E (lat u)) of
                  (Some lo, Some la) \<Rightarrow>
                    (let u1 = setStatusMsg ''Creating point...'' (u\<lparr>busy := True\<rparr>) in
                     case insert_resource E (trim (name u)) (rtype u) (rstatus u) propsJson
                            \<lparr>gtype = ''Point'', coordinates = Pos lo la\<rparr> w of
                       (Inl e, w1) \<Rightarrow>
                         (setStatusMsg (''Create failed: '' @ message_or_unknown e)
                            (u1\<lparr>busy := False\<rparr>), w1)
                     | (Inr newId, w1) \<Rightarrow>
                         (case upload_staged E newId (u1\<lparr>busy := False\<rparr>, w1) of
                            (u2, w2) \<Rightarrow>
                              refreshData E
                                ((setStatusMsg ''Created.'' u2)\<lparr>lon := [], lat := []\<rparr>, w2)))
                | _ \<Rightarrow> (setStatusMsg ''Missing or invalid fields.'' u, w))))"

text \<open>
  The handler of \<open>draw.create\<close>:
  \<^verbatim>\<open>
  map.on("draw.create", async (e: any) => {
    const feature = e.features?.[0];
    if (!feature) return;
    const g = feature.geometry as { type: "Polygon" | "LineString" };
    const displayName = name?.trim() || `${g.type === "Polygon" ? "geofence" : "route"} ${new Date().toISOString().slice(0,19)}`;
    let propsJson: any = null; try { propsJson = propsText?.trim() ? JSON.parse(propsText) : null; } catch {}
    setBusy(true); setStatusMsg(`Creating ${g.type === "Polygon" ? "geofence" : "route"}...`);
    const { data, error } = await supabase.from("resources")
      .insert([{ name: displayName, rtype: g.type === "Polygon" ? "geofence" : "route",
                 status: rstatus, properties: propsJson, geometry: g }])
      .select("id").single();
    setBusy(false);
    drawRef.current?.deleteAll?.();
    setCreateMode("off");
    if (error) { ...; setStatusMsg("Create failed: " + (error.message ?? "unknown")); }
    else {
      const newId = data?.id as number;
      if (createFiles.length > 0 && newId) { ... }
      setStatusMsg("Created."); await refreshData();
    }
  });
  \<close>
  The argument is the geometry of the first feature of the event, if there is one.
  The handler is bound once, by the effect that sets up the map (its dependency list
  is empty), so it keeps the state variables and callbacks of the first render: \<open>name\<close>,
  \<open>propsText\<close>, \<open>rstatus\<close> and \<open>createFiles\<close> have their initial values in it, whatever
  the form holds by now, and its \<open>refreshData\<close> is that of the first render.
\<close>

definition drawn_kind :: "geometry \<Rightarrow> string" where
  "drawn_kind g = (if gtype g = ''Polygon'' then ''geofence'' else ''route'')"

definition onDrawCreate :: "env \<Rightarrow> geometry option \<Rightarrow> ui \<times> world \<Rightarrow> ui \<times> world" where
  "onDrawCreate E e s =
     (case s of (u, w) \<Rightarrow>
        (case e of
           None \<Rightarrow> (u, w)
         | Some g \<Rightarrow>
             (let displayName =
                    (if trim (name initial_ui) \<noteq> [] then trim (name initial_ui)
                     else drawn_kind g @ '' '' @ take 19 (Date_toISOString E));
                  propsJson = (case parse_props E (propsText initial_ui) of
                                 None \<Rightarrow> JNull | Some j \<Rightarrow> j);
                  u1 = setStatusMsg (''Creating '' @ drawn_kind g @ ''...'') (u\<lparr>busy := True\<rparr>)
              in case insert_resource E displayName (drawn_kind g) (rstatus initial_ui)
                        propsJson g w of
                   (r, w1) \<Rightarrow>
                     (let u2 = u1\<lparr>busy := False,
                                  drawRef := map_option deleteAll (drawRef u1),
                                  createMode := CreateOff\<rparr>
                      in case r of
                           Inl err \<Rightarrow>
                             (setStatusMsg (''Create failed: '' @ message_or_unknown err) u2, w1)
                         | Inr newId \<Rightarrow>
                             (case (if length (createFiles initial_ui) > 0 \<and> newId \<noteq> 0
                                    then (case uploadFilesForResource E newId
                                                 (createFiles initial_ui) (u2, w1) of
                                            (u3, w3) \<Rightarrow> (u3\<lparr>createFiles := []\<rparr>, w3))
                                    else (u2, w1)) of
                                (u3, w3) \<Rightarrow>
                                  refreshData_at initial_ui E
                                    (setStatusMsg ''Created.'' u3, w3))))))"

section \<open>Editing a cell of the attribute table\<close>

text \<open>
  The table calls \<open>onEditCell(r.id, patch)\<close> with one of
  \<open>{ p_name: e.target.value || null }\<close>, \<open>{ p_rtype: e.target.value }\<close>,
  \<open>{ p_status: e.target.value }\<close> and \<open>{ p_properties: obj }\<close>, and the page passes it on:
  \<^verbatim>\<open>
  onEditCell={async (id, patch) => {
    setBusy(true);
    const { error } = await supabase.rpc("update_resource", { p_id: id, ...patch });
    setBusy(false);
    if (error) { ...; setStatusMsg("Update failed: " + (error.message ?? "unknown")); }
    else { setStatusMsg("Updated."); await refreshData(); }
  }}
  \<close>
\<close>

datatype patch = P_name string | P_rtype string | P_status string | P_properties json

definition onEditCell :: "env \<Rightarrow> int \<Rightarrow> patch \<Rightarrow> ui \<times> world \<Rightarrow> ui \<times> world" where
  "onEditCell E i p s =
     (case s of (u, w) \<Rightarrow>
        (case (case p of
                 P_name v \<Rightarrow>
                   rpc_update_resource E i (if v = [] then None else Some v) None None None None w
               | P_rtype v \<Rightarrow> rpc_update_resource E i None (Some v) None None None w
               | P_status v \<Rightarrow> rpc_update_resource E i None None (Some v) None None w
               | P_properties v \<Rightarrow>
                   rpc_update_resource E i None None None
                     (if v = JNull then None else Some v) None w) of
           (Some e, w1) \<Rightarrow>
             (setStatusMsg (''Update failed: '' @ message_or_unknown e) (u\<lparr>busy := False\<rparr>), w1)
         | (None, w1) \<Rightarrow> refreshData E (setStatusMsg ''Updated.'' (u\<lparr>busy := False\<rparr>), w1)))"

section \<open>Saving and deleting the selected resource\<close>

text \<open>
  \<^verbatim>\<open>
  async function onSaveChanges() {
    if (!selectedId) return;
    let propsJson: any = null;
    try { propsJson = propsText?.trim() ? JSON.parse(propsText) : null; }
    catch { setStatusMsg("Save failed: Properties JSON invalid."); return; }
    setBusy(true); setStatusMsg("Saving...");
    const { error } = await supabase.rpc("update_resource", {
      p_id: selectedId, p_name: name?.trim() || null, p_rtype: rtype, p_status: rstatus,
      p_properties: propsJson, p_geometry: null });
    setBusy(false);
    if (error) { ...; setStatusMsg("Save failed: " + (error.message ?? "unknown")); return; }
    setStatusMsg("Saved."); await refreshData();
  }
  \<close>
\<close>

definition onSaveChanges :: "env \<Rightarrow> ui \<times> world \<Rightarrow> ui \<times> world" where
  "onSaveChanges E s =
     (case s of (u, w) \<Rightarrow>
        (case selectedId u of
           None \<Rightarrow> (u, w)
         | Some i \<Rightarrow>
             if i = 0 then (u, w)
             else
               (case parse_props E (propsText u) of
                  None \<Rightarrow> (setStatusMsg ''Save failed: Properties JSON invalid.'' u, w)
                | Some propsJson \<Rightarrow>
                    (let u1 = setStatusMsg ''Saving...'' (u\<lparr>busy := True\<rparr>) in
                     case rpc_update_resource E i
                            (if trim (name u) = [] then None else Some (trim (name u)))
                            (Some (rtype u)) (Some (rstatus u))
                            (if propsJson = JNull then None else Some propsJson) None w of
                       (Some e, w1) \<Rightarrow>
                         (setStatusMsg (''Save failed: '' @ message_or_unknown e)
                            (u1\<lparr>busy := False\<rparr>), w1)
                     | (None, w1) \<Rightarrow>
                         refreshData E (setStatusMsg ''Saved.'' (u1\<lparr>busy := False\<rparr>), w1)))))"

text \<open>
  \<^verbatim>\<open>
  async function onDeleteSelected() {
    if (!selectedId) return;
    if (editingRef.current) { drawRef.current?.deleteAll(); setEditing(null); }
    cancelMove();
    setBusy(true); setStatusMsg("Deleting...");
    const { error } = await supabase.rpc("delete_resource", { p_id: selectedId });
    setBusy(false);
    if (error) { ...; setStatusMsg("Delete failed: " + (error.message ?? "unknown")); return; }
    setSelectedId(null); setSelectedGeomType(null);
    setPanelOpen(false); setStatusMsg("Deleted."); await refreshData();
  }
  \<close>
  The \<open>refreshData\<close> called at the end is the one of the render that made the handler:
  it still holds the selection that has just been cleared.
\<close>

definition onDeleteSelected :: "env \<Rightarrow> ui \<times> world \<Rightarrow> ui \<times> world" where
  "onDeleteSelected E s =
     (case s of (u, w) \<Rightarrow>
        (case selectedId u of
           None \<Rightarrow> (u, w)
         | Some i \<Rightarrow>
             if i = 0 then (u, w)
             else
               (let u1 = cancelMove E (drop_editing u);
                    u2 = setStatusMsg ''Deleting...'' (u1\<lparr>busy := True\<rparr>) in
                case rpc_delete_resource E i w of
                  (Some e, w1) \<Rightarrow>
                    (setStatusMsg (''Delete failed: '' @ message_or_unknown e)
                       (u2\<lparr>busy := False\<rparr>), w1)
                | (None, w1) \<Rightarrow>
                    refreshData_at u E
                      (setStatusMsg ''Deleted.''
                         (u2\<lparr>busy := False, selectedId := None, selectedGeomType := None,
                             panelOpen := False\<rparr>), w1))))"

text \<open>
  The delete button of a row of the attribute table:
  \<^verbatim>\<open>
  onDelete={async (id) => {
    setBusy(true);
    const { error } = await supabase.rpc("delete_resource", { p_id: id });
    setBusy(false);
    if (error) { ...; setStatusMsg("Delete failed: " + (error.message ?? "unknown")); }
    else { setStatusMsg("Deleted."); await refreshData(); }
  }}
  \<close>
\<close>

definition onDeleteRow :: "env \<Rightarrow> int \<Rightarrow> ui \<times> world \<Rightarrow> ui \<times> world" where
  "onDeleteRow E i s =
     (case s of (u, w) \<Rightarrow>
        (case rpc_delete_resource E i w of
           (Some e, w1) \<Rightarrow>
             (setStatusMsg (''Delete failed: '' @ message_or_unknown e) (u\<lparr>busy := False\<rparr>), w1)
         | (None, w1) \<Rightarrow> refreshData E (setStatusMsg ''Deleted.'' (u\<lparr>busy := False\<rparr>), w1)))"

text \<open>
  \<^verbatim>\<open>
  async function saveEditGeometry() {
    if (!editingRef.current) return;
    const draw = drawRef.current as any;
    const fcDraw = draw?.getAll();
    const geom = fcDraw?.features?.[0]?.geometry;
    if (!geom) { setStatusMsg("Nothing to save."); return; }
    setBusy(true); setStatusMsg("Saving geometry...");
    const { error } = await supabase.rpc("update_resource", {
      p_id: editingRef.current.resourceId, p_geometry: geom });
    setBusy(false);
    if (error) { ...; setStatusMsg("Save failed: " + (error.message ?? "unknown")); return; }
    draw.changeMode("simple_select");
    draw.deleteAll();
    setEditing(null);
    setStatusMsg("Geometry saved.");
    void refreshData();
  }
  \<close>
\<close>

definition first_drawn :: "draw_state option \<Rightarrow> geometry option" where
  "first_drawn d =
     (case d of
        None \<Rightarrow> None
      | Some dr \<Rightarrow> (case draw_features dr of [] \<Rightarrow> None | kg # r \<Rightarrow> Some (snd kg)))"

definition saveEditGeometry :: "env \<Rightarrow> ui \<times> world \<Rightarrow> ui \<times> world" where
  "saveEditGeometry E s =
     (case s of (u, w) \<Rightarrow>
        (case editing u of
           None \<Rightarrow> (u, w)
         | Some ed \<Rightarrow>
             (case first_drawn (drawRef u) of
                None \<Rightarrow> (setStatusMsg ''Nothing to save.'' u, w)
              | Some geom \<Rightarrow>
                  (let u1 = setStatusMsg ''Saving geometry...'' (u\<lparr>busy := True\<rparr>) in
                   case rpc_update_resource E (fst ed) None None None None (Some geom) w of
                     (Some e, w1) \<Rightarrow>
                       (setStatusMsg (''Save failed: '' @ message_or_unknown e)
                          (u1\<lparr>busy := False\<rparr>), w1)
                   | (None, w1) \<Rightarrow>
                       refreshData E
                         (setStatusMsg ''Geometry saved.''
                            (u1\<lparr>busy := False,
                                drawRef := map_option (\<lambda>d. deleteAll (changeMode ''simple_select'' d))
                                             (drawRef u1),
                                editing := None\<rparr>), w1)))))"

section \<open>The handlers of the page\<close>

text \<open>
  The handlers of the page that act on resources, on the selection, on the modes and
  on the attachments, as events: a refresh (after a change notice of the store), the
  "open in panel" button of a table row (\<open>selectById(id)\<close>, with no geometry kind), a
  click on a feature layer, the three "New ..." buttons, "Add point", the end of a
  drawing, an edited cell and the delete button of a table row, "Save changes" and
  "Delete" of the panel, "Apply move" and "Cancel move", the three buttons of the
  geometry edit, and the file input and the "Refresh" button of the attachments of the
  selected resource. The last two are on the page only while a resource is selected
  (\<open>panelTab === "edit" && selectedId\<close>). The handlers left out set form fields,
  filters, the layout of panel and table, the basemap, the drag marker and the work
  orders, or set or cancel a mode; none of them contains a call of \<open>setSelectedId\<close>
  or \<open>setSelectedGeomType\<close>.
\<close>

datatype event =
    Refresh
  | SelectRow int
  | ClickLayer layer "feature option"
  | StartCreate CreateMode
  | AddPoint
  | DrawCreate "geometry option"
  | EditCell int patch
  | DeleteRow int
  | SaveChanges
  | DeleteSelected
  | ApplyMove
  | CancelMove
  | StartEditGeometry
  | SaveEditGeometry
  | CancelEditGeometry
  | UploadFiles "File list"
  | ReloadAttachments

fun handle :: "env \<Rightarrow> event \<Rightarrow> ui \<times> world \<Rightarrow> ui \<times> world" where
  "handle E Refresh s = refreshData E s"
| "handle E (SelectRow i) s = selectById E i None s"
| "handle E (ClickLayer l e) s = layer_click E l e s"
| "handle E (StartCreate mode) s = (startCreate E mode (fst s), snd s)"
| "handle E AddPoint s = createFromFormPoint E s"
| "handle E (DrawCreate e) s = onDrawCreate E e s"
| "handle E (EditCell i p) s = onEditCell E i p s"
| "handle E (DeleteRow i) s = onDeleteRow E i s"
| "handle E SaveChanges s = onSaveChanges E s"
| "handle E DeleteSelected s = onDeleteSelected E s"
| "handle E ApplyMove s = applyMove E s"
| "handle E CancelMove s = (cancelMove E (fst s), snd s)"
| "handle E StartEditGeometry s = (startEditGeometry E (fst s), snd s)"
| "handle E SaveEditGeometry s = saveEditGeometry E s"
| "handle E CancelEditGeometry s = (cancelEditGeometry (fst s), snd s)"
| "handle E (UploadFiles files) s =
     (case selectedId (fst s) of
        None \<Rightarrow> s
      | Some i \<Rightarrow> if i = 0 then s else uploadFilesForResource E i files s)"
| "handle E ReloadAttachments s =
     (case selectedId (fst s) of
        None \<Rightarrow> s
      | Some i \<Rightarrow> if i = 0 then s else loadAttachments E i s)"

section \<open>A concrete environment and the initial state\<close>

text \<open>
  An instance of the environment for the worked examples. Its \<open>parseFloat\<close> reads an
  optional sign, decimal digits and an optional fraction after leading white space,
  and is \<open>NaN\<close> when there is no digit; its \<open>toFixed\<close> rounds to the nearest number
  with the given count of decimals, a tie away from zero, and prints all of them; its
  \<open>JSON.parse\<close> knows the empty text of an object and the text the form starts with;
  its clock stands still; no request fails and the geometry conversions return their
  argument.
\<close>

definition is_digit :: "char \<Rightarrow> bool" where
  "is_digit c = (c \<in> set ''0123456789'')"

definition digit_value :: "char \<Rightarrow> nat" where
  "digit_value c = (case map_of (zip ''0123456789'' [0, 1, 2, 3, 4, 5, 6, 7, 8, 9]) c of
                      Some d \<Rightarrow> d | None \<Rightarrow> 0)"

definition digits_value :: "string \<Rightarrow> nat" where
  "digits_value ds = foldl (\<lambda>a c. 10 * a + digit_value c) 0 ds"

definition unsigned_decimal :: "string \<Rightarrow> real option" where
  "unsigned_decimal t =
     (let ip = takeWhile is_digit t;
          rest = dropWhile is_digit t;
          fp = (case rest of [] \<Rightarrow> [] | c # r \<Rightarrow> if c = CHR ''.'' then takeWhile is_digit r else [])
      in if ip = [] \<and> fp = [] then None
         else Some (real (digits_value ip) + real (digits_value fp) / 10 ^ length fp))"

definition parse_decimal :: "string \<Rightarrow> real option" where
  "parse_decimal s =
     (case dropWhile is_ws s of
        [] \<Rightarrow> None
      | c # r \<Rightarrow>
          if c = CHR ''-'' then map_option uminus (unsigned_decimal r)
          else if c = CHR ''+'' then unsigned_decimal r
          else unsigned_decimal (c # r))"

definition pad_zeros :: "nat \<Rightarrow> string \<Rightarrow> string" where
  "pad_zeros d t = replicate (d - length t) (CHR ''0'') @ t"

definition to_fixed :: "nat \<Rightarrow> real \<Rightarrow> string" where
  "to_fixed d x =
     (let n = nat (floor (\<bar>x\<bar> * 10 ^ d + 1 / 2)) in
      (if x < 0 then ''-'' else []) @ show_nat (n div 10 ^ d)
      @ (if d = 0 then [] else ''.'' @ pad_zeros d (show_nat (n mod 10 ^ d))))"

definition env0 :: env where
  "env0 =
     \<lparr>parseFloat = parse_decimal,
      JSON_parse = (\<lambda>t. if trim t = ''{}'' then Some (JObj [])
                        else if t = propsText initial_ui
                          then Some (JObj [(''source'', JStr ''map'')])
                        else None),
      toFixed = to_fixed,
      JSON_stringify_indent = JSON_stringify,
      Date_now = (\<lambda>n. 1700000000000),
      Date_toISOString = ''2023-11-14T22:13:20.000Z'',
      draw_new_id = ''draw-1'',
      fails = (\<lambda>req. None),
      st_geomfromgeojson = Some,
      st_asgeojson = (\<lambda>g. g)\<rparr>"

text \<open>An empty store whose sequences start at 1, as \<open>bigserial\<close> ones do.\<close>

definition world0 :: world where
  "world0 =
     \<lparr>resources = [], resources_id_seq = 1,
      resource_activity = [], resource_activity_id_seq = 1,
      resource_files = [], resource_files_id_seq = 1,
      storage_objects = [], requests = [], db_now = 0\<rparr>"

section \<open>The notions used by the claims\<close>

text \<open>
  The search as the claim words it: the text occurs, letter case aside, in the name,
  in the type, in the status or in the serialized property bag of the row.
\<close>

definition contains_ci :: "string \<Rightarrow> string \<Rightarrow> bool" where
  "contains_ci text qtext = str_includes (toLowerCase text) (toLowerCase qtext)"

definition some_field_contains :: "string \<Rightarrow> geojson_row \<Rightarrow> bool" where
  "some_field_contains qtext row =
     (contains_ci (v_name row) qtext \<or> contains_ci (v_rtype row) qtext
      \<or> contains_ci (v_status row) qtext
      \<or> contains_ci (JSON_stringify (or_empty (v_properties row))) qtext)"

text \<open>
  The search as the page carries it out: the text is blank, or it occurs, letter case
  aside, in the one line made of the four fields with a space between them.
\<close>

definition search_line :: "geojson_row \<Rightarrow> string" where
  "search_line row =
     v_name row @ '' '' @ v_rtype row @ '' '' @ v_status row @ '' ''
     @ JSON_stringify (or_empty (v_properties row))"

definition line_contains :: "string \<Rightarrow> geojson_row \<Rightarrow> bool" where
  "line_contains qtext row =
     (trim qtext = []
      \<or> (\<exists>before after. toLowerCase (search_line row) = before @ toLowerCase qtext @ after))"

text \<open>All rows of the view, greatest id first: what a load with no filter fetches.\<close>

definition fetched_unfiltered :: "env \<Rightarrow> world \<Rightarrow> geojson_row list" where
  "fetched_unfiltered E w = sort_key (\<lambda>r. - v_id r) (resources_geojson E w)"

text \<open>
  The batch upload as the claim words it: a file is rejected when its declared type is
  no image type or its size exceeds 20 MiB; a rejected file gets a message that names
  it.
\<close>

definition rejected :: "File \<Rightarrow> bool" where
  "rejected f = (\<not> isImageFile f \<or> file_size f > 20 * 1024 * 1024)"










text \<open>The count of requests sent once a list of files has gone through unrefused.\<close>

definition count_after :: "nat \<Rightarrow> File list \<Rightarrow> nat" where
  "count_after n fs = n + 2 * length (filter (\<lambda>f. \<not> rejected f) fs)"





text \<open>No feature of a list carries the number \<open>i\<close> as its \<open>id\<close> property.\<close>

definition absent :: "int \<Rightarrow> feature list \<Rightarrow> bool" where
  "absent i fs = (\<forall>f \<in> set fs. get_prop f ''id'' \<noteq> Some (JNum i))"

section \<open>Example stores and pages\<close>

text \<open>
  Scenario A of the specification: a vehicle "Truck 7" with the property bag
  \<open>{"plate":"AB-123"}\<close> at (55.27, 25.2), as the row with id 1 of an otherwise empty
  store.
\<close>

definition truck7 :: resource_row where
  "truck7 =
     \<lparr>r_id = 1, r_name = ''Truck 7'', r_rtype = ''vehicle'', r_status = ''active'',
      r_properties = Some (JObj [(''plate'', JStr ''AB-123'')]),
      r_geom = \<lparr>gtype = ''Point'', coordinates = Pos 55.27 25.2\<rparr>,
      r_created_at = 0\<rparr>"

definition world_truck :: world where
  "world_truck = world0\<lparr>resources := [truck7], resources_id_seq := 2\<rparr>"


text \<open>
  A store holding one route with id 9, and a page whose selection still names the
  point 5 that has since been deleted from the store.
\<close>

definition route9 :: resource_row where
  "route9 =
     \<lparr>r_id = 9, r_name = ''Ring road'', r_rtype = ''route'', r_status = ''active'',
      r_properties = None,
      r_geom = \<lparr>gtype = ''LineString'', coordinates = Nest [Pos 55 25, Pos 56 26]\<rparr>,
      r_created_at = 0\<rparr>"

definition world_route :: world where
  "world_route = world0\<lparr>resources := [route9], resources_id_seq := 10\<rparr>"

definition ui_selected5 :: ui where
  "ui_selected5 =
     initial_ui\<lparr>selectedId := Some 5, selectedGeomType := Some ''Point'', panelTab := TabEdit,
                mapRef := Some \<lparr>styleLoaded = True, point_selected = 5, route_selected = - 1,
                                geofence_selected_outline = - 1\<rparr>\<rparr>"

text \<open>
  The same store after the property bag of the route has been edited in the attribute
  table to \<open>{"id": -1}\<close>.
\<close>

definition world_sentinel :: world where
  "world_sentinel =
     world0\<lparr>resources := [route9\<lparr>r_properties := Some (JObj [(''id'', JNum (- 1))])\<rparr>],
            resources_id_seq := 10\<rparr>"

definition feature9_sentinel :: feature where
  "feature9_sentinel =
     \<lparr>f_id = 9,
      f_geometry = \<lparr>gtype = ''LineString'', coordinates = Nest [Pos 55 25, Pos 56 26]\<rparr>,
      f_properties = [(''id'', JNum (- 1)), (''name'', JStr ''Ring road''),
                      (''rtype'', JStr ''route''), (''status'', JStr ''active'')]\<rparr>"

text \<open>
  A page with the point 1 selected and a staged longitude that is no number, and a
  create form whose latitude is no number.
\<close>

definition ui_bad_move :: ui where
  "ui_bad_move =
     initial_ui\<lparr>selectedId := Some 1, selectedGeomType := Some ''Point'',
                movePointMode := MovePick, stageLon := ''abc'', stageLat := ''25.21''\<rparr>"

definition ui_bad_form :: ui where
  "ui_bad_form =
     initial_ui\<lparr>name := ''Truck 8'', rtype := ''vehicle'', lon := ''55.3'', lat := ''north''\<rparr>"

text \<open>
  A page whose map is reloading its style (after a change of basemap) while the point 3
  is selected and highlighted, and the feature of the route 9 as the snapshot holds it.
\<close>

definition ui_style_loading :: ui where
  "ui_style_loading =
     initial_ui\<lparr>selectedId := Some 3, selectedGeomType := Some ''Point'', panelTab := TabEdit,
                mapRef := Some \<lparr>styleLoaded = False, point_selected = 3, route_selected = - 1,
                                geofence_selected_outline = - 1\<rparr>\<rparr>"

definition feature9 :: feature where
  "feature9 =
     \<lparr>f_id = 9,
      f_geometry = \<lparr>gtype = ''LineString'', coordinates = Nest [Pos 55 25, Pos 56 26]\<rparr>,
      f_properties = [(''id'', JNum 9), (''name'', JStr ''Ring road''),
                      (''rtype'', JStr ''route''), (''status'', JStr ''active'')]\<rparr>"

text \<open>
  A page in the pick mode of a move: the point 1 is selected, the snapshot holds the
  route 9 as well.
\<close>

definition feature1 :: feature where
  "feature1 =
     \<lparr>f_id = 1,
      f_geometry = \<lparr>gtype = ''Point'', coordinates = Pos 55.27 25.2\<rparr>,
      f_properties = [(''id'', JNum 1), (''name'', JStr ''Truck 7''),
                      (''rtype'', JStr ''vehicle''), (''status'', JStr ''active''),
                      (''plate'', JStr ''AB-123'')]\<rparr>"

definition ui_move_pick :: ui where
  "ui_move_pick =
     initial_ui\<lparr>selectedId := Some 1, selectedGeomType := Some ''Point'', panelTab := TabEdit,
                fc := [feature9, feature1], movePointMode := MovePick,
                stageLon := ''55.270000'', stageLat := ''25.200000'',
                mapRef := Some \<lparr>styleLoaded = True, point_selected = 1, route_selected = - 1,
                                geofence_selected_outline = - 1\<rparr>,
                dragMarkerRef := Some ((55.27, 25.2), False)\<rparr>"

text \<open>The page of Scenario D with a search text that spans two fields.\<close>

definition ui_search :: ui where
  "ui_search = initial_ui\<lparr>q := ''vehicle active''\<rparr>"

definition truck7_row :: geojson_row where
  "truck7_row =
     \<lparr>v_id = 1, v_name = ''Truck 7'', v_rtype = ''vehicle'', v_status = ''active'',
      v_properties = Some (JObj [(''plate'', JStr ''AB-123'')]), v_created_at = 0,
      v_geometry = \<lparr>gtype = ''Point'', coordinates = Pos 55.27 25.2\<rparr>\<rparr>"

text \<open>
  Scenario D: the truck is under maintenance, the route is not, and the search text is
  "MAINTENANCE".
\<close>

definition world_maintenance :: world where
  "world_maintenance =
     world0\<lparr>resources := [truck7\<lparr>r_status := ''maintenance''\<rparr>, route9],
            resources_id_seq := 10\<rparr>"

definition ui_search_maintenance :: ui where
  "ui_search_maintenance = initial_ui\<lparr>q := ''MAINTENANCE''\<rparr>"


definition large_image :: File where
  "large_image = \<lparr>file_name = ''site.jpg'', file_type = ''image/jpeg'',
                   file_size = 25 * 1024 * 1024\<rparr>"





text \<open>
  A page reached by clicking the route 9 and pressing "Edit geometry": the vertex edit
  session of route 9 is open.
\<close>

definition ui_editing_route :: ui where
  "ui_editing_route =
     startEditGeometry env0
       (fst (selectRoute env0 (Some feature9) (initial_ui\<lparr>fc := [feature9]\<rparr>, world_route)))"

section \<open>Auxiliary definitions\<close>

text \<open>
  The accumulator of \<open>walk\<close> after a list of values, one bound at a time, and after a
  list of coordinate pairs.
\<close>

fun lower :: "jsnum \<Rightarrow> real list \<Rightarrow> jsnum" where
  "lower b [] = b"
| "lower b (v # vs) = lower (Math_min b (Fin v)) vs"

fun upper :: "jsnum \<Rightarrow> real list \<Rightarrow> jsnum" where
  "upper b [] = b"
| "upper b (v # vs) = upper (Math_max b (Fin v)) vs"

definition box_of :: "bbox \<Rightarrow> (real \<times> real) list \<Rightarrow> bbox" where
  "box_of bb ps = (case bb of (b0, b1, b2, b3) \<Rightarrow>
     (lower b0 (map fst ps), lower b1 (map snd ps),
      upper b2 (map fst ps), upper b3 (map snd ps)))"

lemmas parse_decimal_defs =
  parse_decimal_def unsigned_decimal_def is_ws_def is_digit_def digits_value_def digit_value_def

section \<open>Properties of the bounding box\<close>

lemma lower_Fin: "lower (Fin a) vs = Fin (Min (insert a (set vs)))"
proof (induction vs arbitrary: a)
  case Nil
  show ?case by simp
next
  case (Cons v vs)
  have "Min (insert (min a v) (set vs)) = Min (insert a (insert v (set vs)))"
    by (cases "set vs = {}") (simp_all add: min.assoc)
  with Cons show ?case by simp
qed

lemma upper_Fin: "upper (Fin a) vs = Fin (Max (insert a (set vs)))"
proof (induction vs arbitrary: a)
  case Nil
  show ?case by simp
next
  case (Cons v vs)
  have "Max (insert (max a v) (set vs)) = Max (insert a (insert v (set vs)))"
    by (cases "set vs = {}") (simp_all add: max.assoc)
  with Cons show ?case by simp
qed

lemma lower_PosInf: "vs \<noteq> [] \<Longrightarrow> lower PosInf vs = Fin (Min (set vs))"
  by (cases vs) (simp_all add: lower_Fin)

lemma upper_NegInf: "vs \<noteq> [] \<Longrightarrow> upper NegInf vs = Fin (Max (set vs))"
  by (cases vs) (simp_all add: upper_Fin)

lemma lower_append: "lower b (us @ vs) = lower (lower b us) vs"
  by (induction us arbitrary: b) simp_all

lemma upper_append: "upper b (us @ vs) = upper (upper b us) vs"
  by (induction us arbitrary: b) simp_all

lemma box_of_Nil: "box_of bb [] = bb"
  by (simp add: box_of_def split: prod.splits)

lemma box_of_append: "box_of bb (ps @ qs) = box_of (box_of bb ps) qs"
  by (simp add: box_of_def lower_append upper_append split: prod.splits)

lemma walk_box_of: "walk c bb = box_of bb (positions c)"
proof (induction c bb rule: walk.induct)
  case (1 x y b0 b1 b2 b3)
  show ?case by (simp add: box_of_def)
next
  case (2 cs bb)
  then show ?case
  proof (induction cs arbitrary: bb)
    case Nil
    show ?case by (simp add: box_of_Nil)
  next
    case (Cons c cs)
    have "fold walk cs (walk c bb) = box_of (walk c bb) (concat (map positions cs))"
      using Cons.IH [of "walk c bb"] Cons.prems by simp
    moreover have "walk c bb = box_of bb (positions c)"
      using Cons.prems by simp
    ultimately show ?case by (simp add: box_of_append)
  qed
qed

text \<open>
  Claim C10. For a geometry with at least one coordinate pair, \<open>bboxOf\<close> returns
  \<open>[minX, minY, maxX, maxY]\<close>: the least and greatest first and second components over
  all pairs. Every pair lies within the box and each bound is attained by a pair.
\<close>

theorem bboxOf_min_max:
  assumes "positions (coordinates geom) \<noteq> []"
  shows "bboxOf geom = (Fin (Min (xs_of geom)), Fin (Min (ys_of geom)),
                        Fin (Max (xs_of geom)), Fin (Max (ys_of geom)))
       \<and> (\<forall>(x, y) \<in> set (positions (coordinates geom)).
             Min (xs_of geom) \<le> x \<and> x \<le> Max (xs_of geom)
           \<and> Min (ys_of geom) \<le> y \<and> y \<le> Max (ys_of geom))
       \<and> Min (xs_of geom) \<in> xs_of geom \<and> Max (xs_of geom) \<in> xs_of geom
       \<and> Min (ys_of geom) \<in> ys_of geom \<and> Max (ys_of geom) \<in> ys_of geom"
proof -
  let ?ps = "positions (coordinates geom)"
  have ne: "map fst ?ps \<noteq> []" "map snd ?ps \<noteq> []"
    using assms by simp_all
  have box: "bboxOf geom = (Fin (Min (xs_of geom)), Fin (Min (ys_of geom)),
                            Fin (Max (xs_of geom)), Fin (Max (ys_of geom)))"
    using lower_PosInf [OF ne(1)] lower_PosInf [OF ne(2)]
          upper_NegInf [OF ne(1)] upper_NegInf [OF ne(2)]
    by (simp add: bboxOf_def walk_box_of box_of_def xs_of_def ys_of_def)
  have fin: "finite (xs_of geom)" "finite (ys_of geom)"
    by (simp_all add: xs_of_def ys_of_def)
  have nex: "xs_of geom \<noteq> {}" "ys_of geom \<noteq> {}"
    using assms by (simp_all add: xs_of_def ys_of_def)
  have inside: "\<forall>(x, y) \<in> set ?ps.
             Min (xs_of geom) \<le> x \<and> x \<le> Max (xs_of geom)
           \<and> Min (ys_of geom) \<le> y \<and> y \<le> Max (ys_of geom)"
  proof (clarify, intro conjI)
    fix x y assume m: "(x, y) \<in> set ?ps"
    have x: "x \<in> xs_of geom" and y: "y \<in> ys_of geom"
      using m by (force simp: xs_of_def ys_of_def)+
    show "Min (xs_of geom) \<le> x" using fin(1) x by (rule Min_le)
    show "x \<le> Max (xs_of geom)" using fin(1) x by (rule Max_ge)
    show "Min (ys_of geom) \<le> y" using fin(2) y by (rule Min_le)
    show "y \<le> Max (ys_of geom)" using fin(2) y by (rule Max_ge)
  qed
  show ?thesis
    using box inside Min_in [OF fin(1) nex(1)] Max_in [OF fin(1) nex(1)]
          Min_in [OF fin(2) nex(2)] Max_in [OF fin(2) nex(2)]
    by blast
qed

theorem bboxOf_min_max_witness:
  "positions (coordinates \<lparr>gtype = ''Polygon'',
       coordinates = Nest [Nest [Pos 0 0, Pos 4 0, Pos 4 3, Pos 0 0]]\<rparr>) \<noteq> []
   \<and> bboxOf \<lparr>gtype = ''Polygon'',
        coordinates = Nest [Nest [Pos 0 0, Pos 4 0, Pos 4 3, Pos 0 0]]\<rparr>
     = (Fin 0, Fin 0, Fin 4, Fin 3)"
proof -
  let ?g = "\<lparr>gtype = ''Polygon'',
       coordinates = Nest [Nest [Pos 0 0, Pos 4 0, Pos 4 3, Pos 0 0]]\<rparr>"
  have h: "positions (coordinates ?g) \<noteq> []" by simp
  show ?thesis using h bboxOf_min_max [OF h] by (simp add: xs_of_def ys_of_def)
qed

section \<open>The update procedure and the store\<close>

lemma find_map_upd:
  assumes "\<And>x. r_id (g x) = r_id x" and "find (\<lambda>r. r_id r = p) rs = Some r"
  shows "find (\<lambda>r. r_id r = p) (map (\<lambda>x. if r_id x = p then g x else x) rs) = Some (g r)"
  using assms(2) by (induction rs) (auto simp: assms(1) split: if_splits)

lemma set_clause_status_only:
  "set_clause None None (Some st) None None r = r\<lparr>r_status := st\<rparr>"
  by (simp add: set_clause_def coalesce_def coalesce_null_def)

lemma update_resource_status_only:
  assumes "find_resource p_id w = Some r"
  shows "update_resource E p_id None None (Some st) None None w =
           Inr (r\<lparr>r_status := st\<rparr>,
                log_activity p_id ''update'' (Some r) (Some (r\<lparr>r_status := st\<rparr>))
                  (w\<lparr>resources := map (\<lambda>x. if r_id x = p_id then x\<lparr>r_status := st\<rparr> else x)
                                        (resources w)\<rparr>))"
  using assms by (simp add: update_resource_def set_clause_status_only Let_def cong: if_cong)

lemma resources_log_activity [simp]: "resources (log_activity i a old new w) = resources w"
  by (simp add: log_activity_def)

lemma resources_send [simp]: "resources (send req w) = resources w"
  by (simp add: send_def)

lemma find_resource_send [simp]: "find_resource i (send req w) = find_resource i w"
  by (simp add: find_resource_def)

lemma load_world: "snd (loadAttachments E i (u, w)) = send (SelectResourceFiles i) w"
  by (simp add: loadAttachments_def Let_def split: option.splits)

lemma refresh_world:
  "snd (refreshData E (u, w)) =
     (let w1 = send (SelectResources (eq_filter (fltType u)) (eq_filter (fltStatus u))) w in
      if fails E (SelectResources (eq_filter (fltType u)) (eq_filter (fltStatus u))) = None
         \<and> id_truthy (selectedId u)
      then send (SelectResourceFiles (the (selectedId u))) w1 else w1)"
  by (simp add: refreshData_def Let_def load_world id_truthy_def split: option.splits)

lemma refresh_resources [simp]: "resources (snd (refreshData E (u, w))) = resources w"
  by (simp add: refresh_world Let_def)

lemma find_resource_refresh [simp]:
  "find_resource i (snd (refreshData E (u, w))) = find_resource i w"
  by (simp add: find_resource_def)

text \<open>
  Claim C3. For a resource that exists, calling \<open>update_resource\<close> with the id and the
  status and every other parameter omitted succeeds, sets the status, and leaves the
  name, type, property bag and geometry of that resource, and of every other one, as
  they were. The same holds for the status cell of the attribute table, which sends
  exactly this call, whether or not the request fails.
\<close>

theorem update_status_only_frame:
  assumes "find_resource p_id w = Some r"
  shows "(\<exists>r' w'. update_resource E p_id None None (Some st) None None w = Inr (r', w')
            \<and> find_resource p_id w' = Some r'
            \<and> r_status r' = st
            \<and> r_name r' = r_name r \<and> r_rtype r' = r_rtype r
            \<and> r_properties r' = r_properties r \<and> r_geom r' = r_geom r
            \<and> map r_name (resources w') = map r_name (resources w)
            \<and> map r_rtype (resources w') = map r_rtype (resources w)
            \<and> map r_properties (resources w') = map r_properties (resources w)
            \<and> map r_geom (resources w') = map r_geom (resources w))
       \<and> (\<exists>r'. find_resource p_id (snd (onEditCell E p_id (P_status st) (u, w))) = Some r'
            \<and> r_name r' = r_name r \<and> r_rtype r' = r_rtype r
            \<and> r_properties r' = r_properties r \<and> r_geom r' = r_geom r)"
proof (intro conjI)
  let ?upd = "\<lambda>x. if r_id x = p_id then x\<lparr>r_status := st\<rparr> else x"
  let ?w1 = "w\<lparr>resources := map ?upd (resources w)\<rparr>"
  let ?w' = "log_activity p_id ''update'' (Some r) (Some (r\<lparr>r_status := st\<rparr>)) ?w1"
  have res: "update_resource E p_id None None (Some st) None None w = Inr (r\<lparr>r_status := st\<rparr>, ?w')"
    by (rule update_resource_status_only [OF assms])
  have found: "find_resource p_id ?w' = Some (r\<lparr>r_status := st\<rparr>)"
    using find_map_upd [of "\<lambda>x. x\<lparr>r_status := st\<rparr>" p_id "resources w" r] assms
    by (simp add: find_resource_def)
  have frame: "map r_name (resources ?w') = map r_name (resources w)"
    "map r_rtype (resources ?w') = map r_rtype (resources w)"
    "map r_properties (resources ?w') = map r_properties (resources w)"
    "map r_geom (resources ?w') = map r_geom (resources w)"
    by (simp_all add: comp_def cong: if_cong)
  show "\<exists>r' w'. update_resource E p_id None None (Some st) None None w = Inr (r', w')
            \<and> find_resource p_id w' = Some r'
            \<and> r_status r' = st
            \<and> r_name r' = r_name r \<and> r_rtype r' = r_rtype r
            \<and> r_properties r' = r_properties r \<and> r_geom r' = r_geom r
            \<and> map r_name (resources w') = map r_name (resources w)
            \<and> map r_rtype (resources w') = map r_rtype (resources w)
            \<and> map r_properties (resources w') = map r_properties (resources w)
            \<and> map r_geom (resources w') = map r_geom (resources w)"
    using res found frame by simp
  let ?req = "RpcUpdateResource p_id None None (Some st) None None"
  show "\<exists>r'. find_resource p_id (snd (onEditCell E p_id (P_status st) (u, w))) = Some r'
            \<and> r_name r' = r_name r \<and> r_rtype r' = r_rtype r
            \<and> r_properties r' = r_properties r \<and> r_geom r' = r_geom r"
  proof (cases "fails E ?req")
    case None
    have "find_resource p_id (send ?req w) = Some r" using assms by simp
    from update_resource_status_only [OF this, of E st]
    have "snd (onEditCell E p_id (P_status st) (u, w)) =
          snd (refreshData E (setStatusMsg ''Updated.'' (u\<lparr>busy := False\<rparr>),
                 log_activity p_id ''update'' (Some r) (Some (r\<lparr>r_status := st\<rparr>))
                   ((send ?req w)\<lparr>resources := map ?upd (resources (send ?req w))\<rparr>)))"
      using None by (simp add: onEditCell_def rpc_update_resource_def Let_def)
    then have "find_resource p_id (snd (onEditCell E p_id (P_status st) (u, w))) = Some (r\<lparr>r_status := st\<rparr>)"
      using find_map_upd [of "\<lambda>x. x\<lparr>r_status := st\<rparr>" p_id "resources w" r] assms
      by (simp add: find_resource_def)
    then show ?thesis by simp
  next
    case (Some e)
    then have "snd (onEditCell E p_id (P_status st) (u, w)) = send ?req w"
      by (simp add: onEditCell_def rpc_update_resource_def Let_def)
    then show ?thesis using assms by simp
  qed
qed

theorem update_status_only_frame_witness:
  "find_resource 1 world_truck = Some truck7
   \<and> (\<exists>r' w'. update_resource env0 1 None None (Some ''maintenance'') None None world_truck
                    = Inr (r', w')
          \<and> find_resource 1 w' = Some r'
          \<and> r_status r' = ''maintenance''
          \<and> r_name r' = ''Truck 7'' \<and> r_rtype r' = ''vehicle''
          \<and> r_properties r' = Some (JObj [(''plate'', JStr ''AB-123'')])
          \<and> r_geom r' = \<lparr>gtype = ''Point'', coordinates = Pos 55.27 25.2\<rparr>)"
proof -
  have h: "find_resource 1 world_truck = Some truck7"
    by (simp add: find_resource_def world_truck_def world0_def truck7_def)
  show ?thesis
    using h update_status_only_frame [OF h, of env0 "''maintenance''" initial_ui]
    by (auto simp add: truck7_def)
qed


section \<open>Staged coordinates that are no numbers\<close>

text \<open>
  Claim C9. When a staged coordinate string does not parse as a number
  (\<open>parseFloat\<close> gives \<open>NaN\<close>), the commit is not carried out: \<open>applyMove\<close> with such a
  \<open>stageLon\<close> or \<open>stageLat\<close> leaves the world as it is (no request is sent, no table
  changes) and changes at most the status message; \<open>createFromFormPoint\<close> with such a
  \<open>lon\<close> or \<open>lat\<close> only sets the status message.
\<close>

theorem unparsable_coordinates_block_commit:
  "(parseFloat E (stageLon u) = None \<or> parseFloat E (stageLat u) = None \<longrightarrow>
      snd (applyMove E (u, w)) = w
      \<and> (fst (applyMove E (u, w)) = u
         \<or> fst (applyMove E (u, w)) = setStatusMsg ''Invalid coordinates.'' u))
   \<and> (parseFloat E (lon u) = None \<or> parseFloat E (lat u) = None \<longrightarrow>
      createFromFormPoint E (u, w) = (setStatusMsg ''Missing or invalid fields.'' u, w))"
  by (auto simp add: applyMove_def createFromFormPoint_def formValid_def isNum_def)

theorem unparsable_coordinates_block_commit_witness:
  "parseFloat env0 (stageLon ui_bad_move) = None
   \<and> fst (applyMove env0 (ui_bad_move, world_truck))
       = setStatusMsg ''Invalid coordinates.'' ui_bad_move
   \<and> snd (applyMove env0 (ui_bad_move, world_truck)) = world_truck
   \<and> requests (snd (applyMove env0 (ui_bad_move, world_truck))) = []
   \<and> parseFloat env0 (lat ui_bad_form) = None
   \<and> createFromFormPoint env0 (ui_bad_form, world_truck)
       = (setStatusMsg ''Missing or invalid fields.'' ui_bad_form, world_truck)"
proof -
  have a: "parseFloat env0 (stageLon ui_bad_move) = None"
    by (simp add: env0_def ui_bad_move_def initial_ui_def parse_decimal_defs)
  have b: "parseFloat env0 (lat ui_bad_form) = None"
    by (simp add: env0_def ui_bad_form_def initial_ui_def parse_decimal_defs)
  have c: "requests world_truck = []"
    by (simp add: world_truck_def world0_def)
  have d: "fst (applyMove env0 (ui_bad_move, world_truck)) \<noteq> ui_bad_move"
    using a by (simp add: applyMove_def isNum_def id_truthy_def setStatusMsg_def
                  ui_bad_move_def initial_ui_def)
  show ?thesis
    using a b c d unparsable_coordinates_block_commit [of env0 ui_bad_move world_truck]
      unparsable_coordinates_block_commit [of env0 ui_bad_form world_truck]
    by simp
qed

section \<open>The refresh\<close>

lemma load_ui_frame:
  "selectedId (fst (loadAttachments E i (u, w))) = selectedId u"
  "selectedGeomType (fst (loadAttachments E i (u, w))) = selectedGeomType u"
  "mapRef (fst (loadAttachments E i (u, w))) = mapRef u"
  "fc (fst (loadAttachments E i (u, w))) = fc u"
  by (simp_all add: loadAttachments_def Let_def setStatusMsg_def split: option.splits)

lemma refresh_selection:
  "selectedId (fst (refreshData E (u, w))) = selectedId u"
  "selectedGeomType (fst (refreshData E (u, w))) = selectedGeomType u"
  by (simp_all add: refreshData_def Let_def setStatusMsg_def load_ui_frame split: option.splits)

lemma refresh_mapRef:
  assumes "fails E (SelectResources (eq_filter (fltType u)) (eq_filter (fltStatus u))) = None"
    and "mapRef u = Some m" and "styleLoaded m"
  shows "mapRef (fst (refreshData E (u, w))) = Some (refresh_filters (selectedGeomType u) (selectedId u) m)"
  using assms by (simp add: refreshData_def Let_def load_ui_frame split: option.splits)

lemma refresh_fc:
  assumes "fails E (SelectResources (eq_filter (fltType u)) (eq_filter (fltStatus u))) = None"
  shows "fc (fst (refreshData E (u, w))) =
         map to_feature (filter (row_matches (q u))
           (select_resources E (eq_filter (fltType u)) (eq_filter (fltStatus u))
              (send (SelectResources (eq_filter (fltType u)) (eq_filter (fltStatus u))) w)))"
  using assms by (simp add: refreshData_def Let_def load_ui_frame split: option.splits)

lemma find_feature_None: "find_feature (Some i) u = None \<longleftrightarrow> absent i (fc u)"
  by (auto simp add: find_feature_def absent_def find_None_iff id_json_def)

lemmas refresh_eval =
  refreshData_def select_resources_def resources_geojson_def send_def eq_filter_def
  row_matches_def trim_def to_feature_def assign_def or_empty_def loadAttachments_def
  select_resource_files_def refresh_filters_def coalesce_def setStatusMsg_def

lemma refresh_example_fc:
  "fc (fst (refreshData env0 (ui_selected5, world_route))) =
   [\<lparr>f_id = 9,
     f_geometry = \<lparr>gtype = ''LineString'', coordinates = Nest [Pos 55 25, Pos 56 26]\<rparr>,
     f_properties = [(''id'', JNum 9), (''name'', JStr ''Ring road''),
                     (''rtype'', JStr ''route''), (''status'', JStr ''active'')]\<rparr>]"
  by (simp add: refresh_eval env0_def ui_selected5_def initial_ui_def world_route_def
        world0_def route9_def Let_def)

section \<open>Selecting a feature\<close>

lemma stage_from_frame:
  "selectedId (stage_from E g u) = selectedId u"
  "selectedGeomType (stage_from E g u) = selectedGeomType u"
  "mapRef (stage_from E g u) = mapRef u"
  by (simp_all add: stage_from_def split: coords.splits)

lemma fill_form_frame:
  "selectedId (fill_form E gt f u) = selectedId u"
  "selectedGeomType (fill_form E gt f u) = selectedGeomType u"
  "mapRef (fill_form E gt f u) = mapRef u"
  by (simp_all add: fill_form_def Let_def stage_from_frame)

lemma or_string_Some: "k \<noteq> [] \<Longrightarrow> or_string (Some k) b = Some k"
  by (simp add: or_string_def)

lemma selectById_selection:
  assumes "mapRef u = Some m" and "k \<noteq> []"
  shows "selectedId (fst (selectById E i (Some k) (u, w))) = Some i"
    and "selectedGeomType (fst (selectById E i (Some k) (u, w))) = Some k"
    and "mapRef (fst (selectById E i (Some k) (u, w)))
         = Some (if styleLoaded m then select_filters (Some k) i m else m)"
  using assms
  by (simp_all add: selectById_def Let_def load_ui_frame setStatusMsg_def or_string_Some
        fill_form_frame split: option.splits)

lemma selectById_no_map:
  "mapRef u = None \<Longrightarrow> selectById E i g (u, w) = (u, w)"
  by (simp add: selectById_def)

lemma selectById_at_fst:
  "fst (selectById_at c E i g (u, w)) = (fst (selectById E i g (u\<lparr>fc := fc c\<rparr>, w)))\<lparr>fc := fc u\<rparr>"
  by (simp add: selectById_at_def split: prod.splits)

lemma selectById_at_selection:
  assumes "mapRef u = Some m" and "k \<noteq> []"
  shows "selectedId (fst (selectById_at c E i (Some k) (u, w))) = Some i"
    and "selectedGeomType (fst (selectById_at c E i (Some k) (u, w))) = Some k"
    and "mapRef (fst (selectById_at c E i (Some k) (u, w)))
         = Some (if styleLoaded m then select_filters (Some k) i m else m)"
proof -
  have m: "mapRef (u\<lparr>fc := fc c\<rparr>) = Some m" using assms(1) by simp
  show "selectedId (fst (selectById_at c E i (Some k) (u, w))) = Some i"
    using selectById_selection(1) [OF m assms(2), of E i w]
    by (simp add: selectById_at_fst)
  show "selectedGeomType (fst (selectById_at c E i (Some k) (u, w))) = Some k"
    using selectById_selection(2) [OF m assms(2), of E i w]
    by (simp add: selectById_at_fst)
  show "mapRef (fst (selectById_at c E i (Some k) (u, w)))
         = Some (if styleLoaded m then select_filters (Some k) i m else m)"
    using selectById_selection(3) [OF m assms(2), of E i w]
    by (simp add: selectById_at_fst)
qed

lemma selectById_at_no_map:
  "mapRef u = None \<Longrightarrow> selectById_at c E i g (u, w) = (u, w)"
  by (simp add: selectById_at_def selectById_no_map)

text \<open>
  Claim C7, as amended. When the style of the map is loaded, after \<open>selectById\<close> with an
  id and one of the three geometry kinds the selection is that id and kind, the
  highlight filter of that kind holds the id and the other two hold the sentinel \<open>-1\<close>:
  for an id other than the sentinel exactly one of the three filters holds it. A layer
  whose filter holds the sentinel draws no feature whose \<open>id\<close> property is another
  number.
\<close>

theorem selectById_highlight:
  assumes "mapRef u = Some m" and "styleLoaded m"
    and "k = ''Point'' \<or> k = ''LineString'' \<or> k = ''Polygon''"
    and "selectById E i (Some k) (u, w) = (u', w')"
  shows "selectedId u' = Some i \<and> selectedGeomType u' = Some k
       \<and> (\<exists>m'. mapRef u' = Some m'
              \<and> point_selected m' = (if k = ''Point'' then i else - 1)
              \<and> route_selected m' = (if k = ''LineString'' then i else - 1)
              \<and> geofence_selected_outline m' = (if k = ''Polygon'' then i else - 1)
              \<and> (i \<noteq> - 1 \<longrightarrow>
                   length (filter (\<lambda>operand. operand = i)
                     [point_selected m', route_selected m', geofence_selected_outline m']) = 1)
              \<and> (\<forall>f. get_prop f ''id'' \<noteq> Some (JNum (- 1)) \<longrightarrow>
                     (k \<noteq> ''Point'' \<longrightarrow> \<not> point_selected_shows m' f)
                   \<and> (k \<noteq> ''LineString'' \<longrightarrow> \<not> route_selected_shows m' f)
                   \<and> (k \<noteq> ''Polygon'' \<longrightarrow> \<not> geofence_selected_outline_shows m' f)))"
proof -
  have k: "k \<noteq> []" using assms(3) by auto
  have u': "u' = fst (selectById E i (Some k) (u, w))" using assms(4) by simp
  let ?m' = "select_filters (Some k) i m"
  have m': "mapRef u' = Some ?m'"
    using selectById_selection(3) [OF assms(1) k, of E i w] assms(2) by (simp add: u')
  have sel: "selectedId u' = Some i \<and> selectedGeomType u' = Some k"
    using selectById_selection(1,2) [OF assms(1) k, of E i w] by (simp add: u')
  have ops: "point_selected ?m' = (if k = ''Point'' then i else - 1)"
    "route_selected ?m' = (if k = ''LineString'' then i else - 1)"
    "geofence_selected_outline ?m' = (if k = ''Polygon'' then i else - 1)"
    by (simp_all add: select_filters_def)
  have one: "i \<noteq> - 1 \<longrightarrow>
       length (filter (\<lambda>operand. operand = i)
         [point_selected ?m', route_selected ?m', geofence_selected_outline ?m']) = 1"
    using assms(3) by (auto simp add: ops)
  have sentinel: "\<forall>f. get_prop f ''id'' \<noteq> Some (JNum (- 1)) \<longrightarrow>
                     (k \<noteq> ''Point'' \<longrightarrow> \<not> point_selected_shows ?m' f)
                   \<and> (k \<noteq> ''LineString'' \<longrightarrow> \<not> route_selected_shows ?m' f)
                   \<and> (k \<noteq> ''Polygon'' \<longrightarrow> \<not> geofence_selected_outline_shows ?m' f)"
    by (simp add: point_selected_shows_def route_selected_shows_def
          geofence_selected_outline_shows_def ops)
  show ?thesis using sel m' ops one sentinel by blast
qed

lemmas select_eval =
  selectById_def find_feature_def get_prop_def id_json_def or_string_def fill_form_def
  string_or_def own_properties_def stage_from_def select_filters_def setStatusMsg_def
  loadAttachments_def select_resource_files_def send_def

theorem selectById_highlight_counterexample:
  "mapRef ui_style_loading \<noteq> None
   \<and> selectedId (fst (selectById env0 9 (Some ''LineString'') (ui_style_loading, world_route)))
       = Some 9
   \<and> selectedGeomType (fst (selectById env0 9 (Some ''LineString'') (ui_style_loading, world_route)))
       = Some ''LineString''
   \<and> mapRef (fst (selectById env0 9 (Some ''LineString'') (ui_style_loading, world_route)))
       = Some \<lparr>styleLoaded = False, point_selected = 3, route_selected = - 1,
               geofence_selected_outline = - 1\<rparr>"
  by (simp add: select_eval env0_def ui_style_loading_def initial_ui_def Let_def)

theorem selectById_highlight_witness:
  "mapRef ui_selected5 = Some \<lparr>styleLoaded = True, point_selected = 5, route_selected = - 1,
                                geofence_selected_outline = - 1\<rparr>
   \<and> selectedId (fst (selectById env0 9 (Some ''LineString'') (ui_selected5, world_route))) = Some 9
   \<and> selectedGeomType (fst (selectById env0 9 (Some ''LineString'') (ui_selected5, world_route)))
       = Some ''LineString''
   \<and> mapRef (fst (selectById env0 9 (Some ''LineString'') (ui_selected5, world_route)))
       = Some \<lparr>styleLoaded = True, point_selected = - 1, route_selected = 9,
               geofence_selected_outline = - 1\<rparr>"
proof -
  obtain u' w' where R: "selectById env0 9 (Some ''LineString'') (ui_selected5, world_route) = (u', w')"
    by force
  have m: "mapRef ui_selected5 = Some \<lparr>styleLoaded = True, point_selected = 5,
              route_selected = - 1, geofence_selected_outline = - 1\<rparr>"
    by (simp add: ui_selected5_def initial_ui_def)
  have l: "styleLoaded \<lparr>styleLoaded = True, point_selected = 5,
              route_selected = - 1, geofence_selected_outline = - 1\<rparr>"
    by simp
  have k: "''LineString'' = ''Point'' \<or> ''LineString'' = ''LineString'' \<or> ''LineString'' = ''Polygon''"
    by simp
  from selectById_highlight [OF m l k R]
  obtain m' where "selectedId u' = Some 9" "selectedGeomType u' = Some ''LineString''"
    "mapRef u' = Some m'" "point_selected m' = - 1" "route_selected m' = 9"
    "geofence_selected_outline m' = - 1"
    by auto
  moreover have "styleLoaded m'"
    using \<open>mapRef u' = Some m'\<close> selectById_selection(3) [OF m, of "''LineString''" env0 9 world_route]
    by (simp add: R select_filters_def)
  ultimately show ?thesis using m by (simp add: R)
qed


section \<open>Clicks on features\<close>

lemma mapRef_drop_editing [simp]: "mapRef (drop_editing u) = mapRef u"
  by (simp add: drop_editing_def)

lemma layer_kind_nonempty [simp]: "layer_kind l \<noteq> []"
  by (cases l) simp_all

lemma layer_click_selects:
  assumes "createMode u = CreateOff"
    and "movePointMode u = MoveOff \<or> (movePointMode u = MovePick \<and> layer_kind l = ''Point'')"
    and "clicked_id e = Some i"
  shows "layer_click E l e (u, w)
         = selectById_at initial_ui E i (Some (layer_kind l)) (drop_editing u, w)"
  using assms by (cases l) (auto simp add: selectPoint_def selectRoute_def selectFence_def)

lemma layer_click_ignored:
  assumes "createMode u \<noteq> CreateOff \<or> movePointMode u = MoveDrag
           \<or> (movePointMode u = MovePick \<and> layer_kind l \<noteq> ''Point'')"
  shows "layer_click E l e (u, w) = (u, w)"
  using assms by (cases l) (auto simp add: selectPoint_def selectRoute_def selectFence_def)

text \<open>
  Claim C5, as amended. With no create mode active, the map in place and a clicked
  feature whose \<open>id\<close> property is a number: a click on a point layer selects that id with
  the kind \<open>Point\<close> when no move is active or the move is in its pick mode, and a click
  on a line or polygon layer selects that id with the kind \<open>LineString\<close> or \<open>Polygon\<close>
  when no move is active. While a create mode or the drag mode of a move is active, and
  for a line or polygon layer also while the pick mode is active, the click changes
  nothing at all.
\<close>

theorem layer_click_selection:
  "(createMode u = CreateOff
      \<and> (movePointMode u = MoveOff \<or> (movePointMode u = MovePick \<and> layer_kind l = ''Point''))
      \<and> mapRef u \<noteq> None \<and> clicked_id e = Some i
    \<longrightarrow> selectedId (fst (layer_click E l e (u, w))) = Some i
      \<and> selectedGeomType (fst (layer_click E l e (u, w))) = Some (layer_kind l))
   \<and> (createMode u \<noteq> CreateOff \<or> movePointMode u = MoveDrag
       \<or> (movePointMode u = MovePick \<and> layer_kind l \<noteq> ''Point'')
    \<longrightarrow> layer_click E l e (u, w) = (u, w))"
proof (intro conjI impI)
  assume a: "createMode u = CreateOff
      \<and> (movePointMode u = MoveOff \<or> (movePointMode u = MovePick \<and> layer_kind l = ''Point''))
      \<and> mapRef u \<noteq> None \<and> clicked_id e = Some i"
  then obtain m where m: "mapRef (drop_editing u) = Some m" by auto
  have eq: "layer_click E l e (u, w)
            = selectById_at initial_ui E i (Some (layer_kind l)) (drop_editing u, w)"
    using a by (intro layer_click_selects) simp_all
  show "selectedId (fst (layer_click E l e (u, w))) = Some i"
    using selectById_at_selection(1) [OF m layer_kind_nonempty] by (simp add: eq)
  show "selectedGeomType (fst (layer_click E l e (u, w))) = Some (layer_kind l)"
    using selectById_at_selection(2) [OF m layer_kind_nonempty] by (simp add: eq)
next
  assume "createMode u \<noteq> CreateOff \<or> movePointMode u = MoveDrag
       \<or> (movePointMode u = MovePick \<and> layer_kind l \<noteq> ''Point'')"
  then show "layer_click E l e (u, w) = (u, w)" by (rule layer_click_ignored)
qed

theorem layer_click_selection_counterexample:
  "createMode ui_move_pick = CreateOff \<and> movePointMode ui_move_pick = MovePick
   \<and> mapRef ui_move_pick \<noteq> None \<and> clicked_id (Some feature9) = Some 9
   \<and> layer_click env0 Routes (Some feature9) (ui_move_pick, world_truck) = (ui_move_pick, world_truck)
   \<and> selectedId ui_move_pick = Some 1"
  by (simp add: ui_move_pick_def initial_ui_def clicked_id_def get_prop_def feature9_def
        selectRoute_def)

theorem layer_click_selection_witness:
  "createMode ui_move_pick = CreateOff \<and> movePointMode ui_move_pick = MovePick
   \<and> layer_kind Points = ''Point'' \<and> mapRef ui_move_pick \<noteq> None
   \<and> clicked_id (Some feature1) = Some 1
   \<and> selectedId (fst (layer_click env0 Points (Some feature1) (ui_selected5\<lparr>fc := [feature1]\<rparr>, world_truck))) = Some 1
   \<and> selectedGeomType (fst (layer_click env0 Points (Some feature1) (ui_selected5\<lparr>fc := [feature1]\<rparr>, world_truck))) = Some ''Point''
   \<and> selectedId (fst (layer_click env0 Points (Some feature1) (ui_move_pick, world_truck))) = Some 1
   \<and> createMode (startCreate env0 CreateGeofence ui_selected5) \<noteq> CreateOff
   \<and> layer_click env0 GeofencesFill (Some feature9)
        (startCreate env0 CreateGeofence ui_selected5, world_truck)
       = (startCreate env0 CreateGeofence ui_selected5, world_truck)"
proof -
  have c: "clicked_id (Some feature1) = Some 1"
    by (simp add: clicked_id_def get_prop_def feature1_def)
  have p: "createMode ui_move_pick = CreateOff" "movePointMode ui_move_pick = MovePick"
    "mapRef ui_move_pick \<noteq> None"
    by (simp_all add: ui_move_pick_def initial_ui_def)
  have s: "createMode (ui_selected5\<lparr>fc := [feature1]\<rparr>) = CreateOff"
    "movePointMode (ui_selected5\<lparr>fc := [feature1]\<rparr>) = MoveOff"
    "mapRef (ui_selected5\<lparr>fc := [feature1]\<rparr>) \<noteq> None"
    by (simp_all add: ui_selected5_def initial_ui_def)
  have g: "createMode (startCreate env0 CreateGeofence ui_selected5) \<noteq> CreateOff"
    by (simp add: startCreate_def Let_def setStatusMsg_def)
  show ?thesis
    using c p s g
      layer_click_selection [of ui_move_pick Points "Some feature1" 1 env0 world_truck]
      layer_click_selection [of "ui_selected5\<lparr>fc := [feature1]\<rparr>" Points "Some feature1" 1 env0 world_truck]
      layer_click_selection [of "startCreate env0 CreateGeofence ui_selected5" GeofencesFill
         "Some feature9" 9 env0 world_truck]
    by simp
qed


section \<open>The free-text search\<close>

lemma str_includes_sublist: "str_includes hay needle \<longleftrightarrow> sublist needle hay"
  by (induction hay) (simp_all add: sublist_Cons_right)

lemma str_includes_iff:
  "str_includes hay needle \<longleftrightarrow> (\<exists>before after. hay = before @ needle @ after)"
  by (simp add: str_includes_sublist sublist_def)

lemma toLowerCase_append [simp]: "toLowerCase (a @ b) = toLowerCase a @ toLowerCase b"
  by (simp add: toLowerCase_def)

lemma haystack_search_line: "haystack row = toLowerCase (search_line row)"
  by (simp add: haystack_def search_line_def)

lemma row_matches_line_contains: "row_matches qtext row \<longleftrightarrow> line_contains qtext row"
  by (simp add: row_matches_def line_contains_def str_includes_iff haystack_search_line)

lemma contains_ci_iff:
  "contains_ci text qtext \<longleftrightarrow>
     (\<exists>before after. toLowerCase text = before @ toLowerCase qtext @ after)"
  by (simp add: contains_ci_def str_includes_iff)

lemma field_in_line:
  assumes "some_field_contains qtext row"
  shows "line_contains qtext row"
proof -
  let ?n = "toLowerCase (v_name row)" and ?t = "toLowerCase (v_rtype row)"
  let ?s = "toLowerCase (v_status row)"
  let ?p = "toLowerCase (JSON_stringify (or_empty (v_properties row)))"
  let ?sp = "toLowerCase '' ''"
  have line: "toLowerCase (search_line row) = ?n @ ?sp @ ?t @ ?sp @ ?s @ ?sp @ ?p"
    by (simp add: search_line_def toLowerCase_def)
  from assms consider
      (n) b a where "?n = b @ toLowerCase qtext @ a"
    | (t) b a where "?t = b @ toLowerCase qtext @ a"
    | (s) b a where "?s = b @ toLowerCase qtext @ a"
    | (p) b a where "?p = b @ toLowerCase qtext @ a"
    by (auto simp add: some_field_contains_def contains_ci_iff)
  then have "\<exists>before after. toLowerCase (search_line row) = before @ toLowerCase qtext @ after"
  proof cases
    case n
    then have "toLowerCase (search_line row)
               = b @ toLowerCase qtext @ (a @ ?sp @ ?t @ ?sp @ ?s @ ?sp @ ?p)"
      by (simp add: line)
    then show ?thesis by blast
  next
    case t
    then have "toLowerCase (search_line row)
               = (?n @ ?sp @ b) @ toLowerCase qtext @ (a @ ?sp @ ?s @ ?sp @ ?p)"
      by (simp add: line)
    then show ?thesis by blast
  next
    case s
    then have "toLowerCase (search_line row)
               = (?n @ ?sp @ ?t @ ?sp @ b) @ toLowerCase qtext @ (a @ ?sp @ ?p)"
      by (simp add: line)
    then show ?thesis by blast
  next
    case p
    then have "toLowerCase (search_line row)
               = (?n @ ?sp @ ?t @ ?sp @ ?s @ ?sp @ b) @ toLowerCase qtext @ a"
      by (simp add: line)
    then show ?thesis by blast
  qed
  then show ?thesis by (simp add: line_contains_def)
qed

lemma fetched_unfiltered_eq:
  "select_resources E None None (send req w) = fetched_unfiltered E w"
  by (simp add: select_resources_def fetched_unfiltered_def resources_geojson_def send_def)

text \<open>
  Claim C4, as amended. With no type or status filter and a load that succeeds, the
  snapshot after a refresh holds exactly the fetched resources for which the search
  text is blank or occurs, letter case aside, in the line "name type status
  serialized-properties". Every fetched resource with the text in one of its four
  fields is among them.
\<close>

theorem refresh_search_snapshot:
  assumes "fltType u = ''all''" and "fltStatus u = ''all''"
    and "fails E (SelectResources None None) = None"
  shows "fc (fst (refreshData E (u, w)))
           = map to_feature (filter (line_contains (q u)) (fetched_unfiltered E w))
       \<and> (\<forall>row \<in> set (fetched_unfiltered E w).
             some_field_contains (q u) row
             \<longrightarrow> to_feature row \<in> set (fc (fst (refreshData E (u, w)))))"
proof -
  have ok: "fails E (SelectResources (eq_filter (fltType u)) (eq_filter (fltStatus u))) = None"
    using assms by (simp add: eq_filter_def)
  have "filter (row_matches (q u)) (fetched_unfiltered E w)
        = filter (line_contains (q u)) (fetched_unfiltered E w)"
    by (rule filter_cong) (simp_all add: row_matches_line_contains)
  then have snap: "fc (fst (refreshData E (u, w)))
           = map to_feature (filter (line_contains (q u)) (fetched_unfiltered E w))"
    using refresh_fc [OF ok, of w] assms(1,2)
    by (simp add: eq_filter_def fetched_unfiltered_eq)
  have "to_feature row \<in> set (fc (fst (refreshData E (u, w))))"
    if "row \<in> set (fetched_unfiltered E w)" and "some_field_contains (q u) row" for row
    using that field_in_line [of "q u" row] by (simp add: snap)
  then show ?thesis using snap by blast
qed

lemmas search_eval =
  contains_ci_def some_field_contains_def toLowerCase_def lower_char_def or_empty_def
  quote_def quote_char_def member_text_def

lemma truck7_row_fetched: "fetched_unfiltered env0 world_truck = [truck7_row]"
  by (simp add: fetched_unfiltered_def resources_geojson_def world_truck_def world0_def
        truck7_def truck7_row_def env0_def)

theorem refresh_search_snapshot_counterexample:
  "fltType ui_search = ''all'' \<and> fltStatus ui_search = ''all''
   \<and> q ui_search = ''vehicle active''
   \<and> fetched_unfiltered env0 world_truck = [truck7_row]
   \<and> fc (fst (refreshData env0 (ui_search, world_truck))) = [to_feature truck7_row]
   \<and> \<not> some_field_contains ''vehicle active'' truck7_row"
proof -
  have a: "fltType ui_search = ''all''" "fltStatus ui_search = ''all''"
    "q ui_search = ''vehicle active''"
    by (simp_all add: ui_search_def initial_ui_def)
  have ok: "fails env0 (SelectResources (eq_filter (fltType ui_search))
              (eq_filter (fltStatus ui_search))) = None"
    by (simp add: env0_def)
  have m: "row_matches ''vehicle active'' truck7_row"
    by (simp add: row_matches_def trim_def is_ws_def haystack_def truck7_row_def search_eval)
  have n: "\<not> some_field_contains ''vehicle active'' truck7_row"
    by (simp add: truck7_row_def search_eval)
  have "fc (fst (refreshData env0 (ui_search, world_truck))) = [to_feature truck7_row]"
    using refresh_fc [OF ok, of world_truck] a m
    by (simp add: eq_filter_def fetched_unfiltered_eq truck7_row_fetched)
  then show ?thesis using a n truck7_row_fetched by simp
qed

theorem refresh_search_snapshot_witness:
  "fltType ui_search_maintenance = ''all'' \<and> fltStatus ui_search_maintenance = ''all''
   \<and> fails env0 (SelectResources None None) = None
   \<and> truck7_row\<lparr>v_status := ''maintenance''\<rparr> \<in> set (fetched_unfiltered env0 world_maintenance)
   \<and> some_field_contains (q ui_search_maintenance) (truck7_row\<lparr>v_status := ''maintenance''\<rparr>)
   \<and> to_feature (truck7_row\<lparr>v_status := ''maintenance''\<rparr>)
       \<in> set (fc (fst (refreshData env0 (ui_search_maintenance, world_maintenance))))
   \<and> fc (fst (refreshData env0 (ui_search_maintenance, world_maintenance)))
       = map to_feature (filter (line_contains (q ui_search_maintenance))
           (fetched_unfiltered env0 world_maintenance))"
proof -
  have a: "fltType ui_search_maintenance = ''all''" "fltStatus ui_search_maintenance = ''all''"
    by (simp_all add: ui_search_maintenance_def initial_ui_def)
  have b: "fails env0 (SelectResources None None) = None"
    by (simp add: env0_def)
  have c: "truck7_row\<lparr>v_status := ''maintenance''\<rparr> \<in> set (fetched_unfiltered env0 world_maintenance)"
    by (simp add: fetched_unfiltered_def resources_geojson_def world_maintenance_def world0_def
          truck7_def route9_def truck7_row_def env0_def)
  have d: "some_field_contains (q ui_search_maintenance) (truck7_row\<lparr>v_status := ''maintenance''\<rparr>)"
    by (simp add: ui_search_maintenance_def initial_ui_def truck7_row_def search_eval)
  show ?thesis
    using a b c d refresh_search_snapshot [OF a b, of world_maintenance]
    by blast
qed


section \<open>The batch upload\<close>






lemma count_after_Cons:
  "count_after n (f # fs) = (if rejected f then count_after n fs else count_after (n + 2) fs)"
  by (simp add: count_after_def)






lemmas upload_eval =
  uploadFilesForResource_def isImageFile_def startsWith_def size_mb_def MAX_IMG_MB_def
  storage_upload_def insert_resource_file_def send_def ATT_BUCKET_def upload_path_def
  setStatusMsg_def message_or_unknown_def loadAttachments_def select_resource_files_def
  skipped_too_large_def skipped_non_image_def show_int_def digit_char_def to_fixed_def
  pad_zeros_def



text \<open>
  Scenario C, a lone image of 25 MiB: nothing is sent to the storage and no record is
  added. The message of the rejection is set and, no request being awaited in between,
  replaced at once by the closing message of the batch.
\<close>

lemma lone_large_image:
  "statusLog (fst (uploadFilesForResource env0 1 [large_image] (initial_ui, world_truck)))
     = [''Skipped site.jpg: 25.0 MB > 20'', ''Attachments uploaded.'']
   \<and> statusMsg (fst (uploadFilesForResource env0 1 [large_image] (initial_ui, world_truck)))
     = ''Attachments uploaded.''
   \<and> requests (snd (uploadFilesForResource env0 1 [large_image] (initial_ui, world_truck)))
     = [SelectResourceFiles 1]
   \<and> resource_files (snd (uploadFilesForResource env0 1 [large_image]
                             (initial_ui, world_truck))) = []"
  by (simp add: upload_eval large_image_def env0_def initial_ui_def world_truck_def world0_def)

section \<open>Creating a resource and the activity log\<close>

lemma insert_resource_refused:
  "insert_resource E nm rt st props g w =
     (Inl (case fails E (InsertResource nm rt st props g) of
             Some e \<Rightarrow> e
           | None \<Rightarrow> Some (unknown_column ''geometry'')),
      send (InsertResource nm rt st props g) w)"
  by (simp add: insert_resource_def Let_def resources_columns_def inserted_members_def
        split: option.splits)







section \<open>Entering a create mode\<close>

lemma cancelMove_frame:
  "editing (cancelMove E u) = editing u"
  "createMode (cancelMove E u) = createMode u"
  "drawRef (cancelMove E u) = drawRef u"
  "movePointMode (cancelMove E u) = MoveOff"
  "dragMarkerRef (cancelMove E u) = None"
  by (simp_all add: cancelMove_def clearDragMarker_def setStatusMsg_def stage_from_def Let_def
        split: option.splits coords.splits)

lemma startCreate_keeps_editing: "editing (startCreate E mode u) = editing u"
  by (simp add: startCreate_def Let_def setStatusMsg_def cancelMove_frame)

lemma startCreate_leaves_move:
  "createMode (startCreate E mode u) = mode"
  "movePointMode (startCreate E mode u) = MoveOff"
  "dragMarkerRef (startCreate E mode u) = None"
  "selectedId (startCreate E mode u) = None"
  "selectedGeomType (startCreate E mode u) = None"
  by (simp_all add: startCreate_def Let_def setStatusMsg_def cancelMove_frame)

lemma cancelEditGeometry_clears: "editing (cancelEditGeometry u) = None"
  by (simp add: cancelEditGeometry_def setStatusMsg_def)

lemma drop_editing_clears: "editing (drop_editing u) = None"
  by (cases "editing u") (simp_all add: drop_editing_def)

lemmas edit_eval =
  ui_editing_route_def startEditGeometry_def selectRoute_def selectById_at_def clicked_id_def
  drop_editing_def select_eval id_truthy_def draw_add_def changeMode_def deleteAll_def feature9_def
  initial_ui_def env0_def

lemma ui_editing_route_state:
  "editing ui_editing_route = Some (9, ''draw-1'')"
  "selectedId ui_editing_route = Some 9"
  "selectedGeomType ui_editing_route = Some ''LineString''"
  "createMode ui_editing_route = CreateOff"
  "movePointMode ui_editing_route = MoveOff"
  by (simp_all add: edit_eval Let_def)

text \<open>
  Claim C2 does not hold of \<open>startCreate\<close> when a vertex edit is open. The route 9 is
  clicked and its geometry edit started; then "New Point" is pressed. Afterwards the
  create mode is active and the selection is cleared, but the edit session is still
  recorded in \<open>editing\<close>, with the resource id and draw id it had: two modes are active
  at once. \<open>cancelEditGeometry\<close> and the feature clicks do reset \<open>editing\<close>;
  \<open>startCreate\<close> clears the draw overlay and leaves out that one step.
\<close>

theorem startCreate_keeps_edit_session:
  "editing ui_editing_route = Some (9, ''draw-1'')
   \<and> createMode (startCreate env0 CreatePoint ui_editing_route) = CreatePoint
   \<and> selectedId (startCreate env0 CreatePoint ui_editing_route) = None
   \<and> movePointMode (startCreate env0 CreatePoint ui_editing_route) = MoveOff
   \<and> map_option draw_features (drawRef (startCreate env0 CreatePoint ui_editing_route)) = Some []
   \<and> editing (startCreate env0 CreatePoint ui_editing_route) = Some (9, ''draw-1'')
   \<and> editing (cancelEditGeometry ui_editing_route) = None"
proof -
  have d: "map_option draw_features (drawRef (startCreate env0 CreatePoint ui_editing_route)) = Some []"
    by (simp add: startCreate_def cancelMove_frame setStatusMsg_def Let_def)
       (simp add: edit_eval Let_def)
  show ?thesis
    using d
    by (simp add: startCreate_keeps_editing startCreate_leaves_move cancelEditGeometry_clears
          ui_editing_route_state)
qed


section \<open>The id property of a feature\<close>

lemma map_of_assign:
  "map_of (assign obj members) k =
     (case map_of (rev members) k of Some v \<Rightarrow> Some v | None \<Rightarrow> map_of obj k)"
  unfolding assign_def
proof (induction members arbitrary: obj)
  case Nil
  show ?case by simp
next
  case (Cons kv members)
  show ?case
    by (cases kv) (simp add: Cons.IH update_conv' map_add_def split: option.splits)
qed

lemma to_feature_id:
  assumes "''id'' \<notin> fst ` set (spread (or_empty (v_properties row)))"
  shows "get_prop (to_feature row) ''id'' = Some (JNum (v_id row))"
proof -
  have "map_of (rev (spread (or_empty (v_properties row)))) ''id'' = None"
    using assms by (simp add: map_of_eq_None_iff)
  then show ?thesis
    by (simp add: get_prop_def to_feature_def map_of_assign)
qed

text \<open>
  A property bag with a member named \<open>id\<close> takes the place of the row's id in the
  feature, since the spread comes last in the object literal.
\<close>

lemma to_feature_id_overridden:
  "get_prop (to_feature \<lparr>v_id = 9, v_name = ''Ring road'', v_rtype = ''route'',
       v_status = ''active'', v_properties = Some (JObj [(''id'', JNum (- 1))]),
       v_created_at = 0,
       v_geometry = \<lparr>gtype = ''LineString'', coordinates = Nest [Pos 55 25, Pos 56 26]\<rparr>\<rparr>) ''id''
   = Some (JNum (- 1))"
  by (simp add: get_prop_def to_feature_def assign_def or_empty_def)


text \<open>
  So the sentinel is the id of no feature of a snapshot built from rows whose ids are
  positive, as the ids of a \<open>bigserial\<close> column are, and whose property bags have no
  member named \<open>id\<close>.
\<close>

lemma absent_sentinel:
  assumes "\<forall>row \<in> set rows. 0 < v_id row
             \<and> ''id'' \<notin> fst ` set (spread (or_empty (v_properties row)))"
  shows "absent (- 1) (map to_feature rows)"
  using assms by (auto simp add: absent_def to_feature_id)

section \<open>The selection and the handlers\<close>

lemma refreshData_at_selection:
  "selectedId (fst (refreshData_at c E (u, w))) = selectedId u"
  "selectedGeomType (fst (refreshData_at c E (u, w))) = selectedGeomType u"
  by (simp_all add: refreshData_at_def split: prod.splits)

lemma cancelMove_selection:
  "selectedId (cancelMove E u) = selectedId u"
  "selectedGeomType (cancelMove E u) = selectedGeomType u"
  by (simp_all add: cancelMove_def clearDragMarker_def setStatusMsg_def stage_from_frame Let_def
        split: option.splits)

lemma drop_editing_selection:
  "selectedId (drop_editing u) = selectedId u"
  "selectedGeomType (drop_editing u) = selectedGeomType u"
  by (simp_all add: drop_editing_def)

lemma upload_loop_selection:
  "upload_loop E rid files (u, w) = (thrown, u1, w1) \<Longrightarrow>
   selectedId u1 = selectedId u \<and> selectedGeomType u1 = selectedGeomType u"
proof (induction files arbitrary: u w)
  case Nil
  then show ?case by simp
next
  case (Cons f fs)
  then show ?case
    by (fastforce simp add: setStatusMsg_def split: if_splits option.splits prod.splits)
qed

lemma upload_selection:
  "selectedId (fst (uploadFilesForResource E rid files (u, w))) = selectedId u"
  "selectedGeomType (fst (uploadFilesForResource E rid files (u, w))) = selectedGeomType u"
proof -
  obtain thrown u1 w1 where
    loop: "upload_loop E rid files (u\<lparr>attBusy := True\<rparr>, w) = (thrown, u1, w1)"
    by (metis prod_cases3)
  from upload_loop_selection [OF loop]
  have s: "selectedId u1 = selectedId u" "selectedGeomType u1 = selectedGeomType u"
    by simp_all
  obtain u2 w2 where
    load: "loadAttachments E rid (setStatusMsg ''Attachments uploaded.'' u1, w1) = (u2, w2)"
    by force
  have l: "selectedId u2 = selectedId u1" "selectedGeomType u2 = selectedGeomType u1"
    using load_ui_frame(1,2) [of E rid "setStatusMsg ''Attachments uploaded.'' u1" w1] load
    by (simp_all add: setStatusMsg_def)
  show "selectedId (fst (uploadFilesForResource E rid files (u, w))) = selectedId u"
    "selectedGeomType (fst (uploadFilesForResource E rid files (u, w))) = selectedGeomType u"
    using loop load s l
    by (simp_all add: uploadFilesForResource_def setStatusMsg_def split: option.splits)
qed

lemma createFromFormPoint_selection:
  "selectedId (fst (createFromFormPoint E (u, w))) = selectedId u"
  "selectedGeomType (fst (createFromFormPoint E (u, w))) = selectedGeomType u"
  by (simp_all add: createFromFormPoint_def insert_resource_refused Let_def setStatusMsg_def
        split: option.splits)

lemma onDrawCreate_selection:
  "selectedId (fst (onDrawCreate E e (u, w))) = selectedId u"
  "selectedGeomType (fst (onDrawCreate E e (u, w))) = selectedGeomType u"
  by (simp_all add: onDrawCreate_def insert_resource_refused Let_def setStatusMsg_def
        split: option.splits)

lemma onEditCell_selection:
  "selectedId (fst (onEditCell E i p (u, w))) = selectedId u"
  "selectedGeomType (fst (onEditCell E i p (u, w))) = selectedGeomType u"
  by (simp_all add: onEditCell_def refresh_selection setStatusMsg_def
        split: prod.splits option.splits patch.splits)

lemma onDeleteRow_selection:
  "selectedId (fst (onDeleteRow E i (u, w))) = selectedId u"
  "selectedGeomType (fst (onDeleteRow E i (u, w))) = selectedGeomType u"
  by (simp_all add: onDeleteRow_def refresh_selection setStatusMsg_def
        split: prod.splits option.splits)

lemma onSaveChanges_selection:
  "selectedId (fst (onSaveChanges E (u, w))) = selectedId u"
  "selectedGeomType (fst (onSaveChanges E (u, w))) = selectedGeomType u"
  by (simp_all add: onSaveChanges_def refresh_selection setStatusMsg_def Let_def
        split: prod.splits option.splits)

lemma applyMove_selection:
  "selectedId (fst (applyMove E (u, w))) = selectedId u"
  "selectedGeomType (fst (applyMove E (u, w))) = selectedGeomType u"
  by (simp_all add: applyMove_def refresh_selection setStatusMsg_def clearDragMarker_def Let_def
        split: prod.splits option.splits)

lemma startEditGeometry_selection:
  "selectedId (startEditGeometry E u) = selectedId u"
  "selectedGeomType (startEditGeometry E u) = selectedGeomType u"
  by (simp_all add: startEditGeometry_def setStatusMsg_def Let_def split: option.splits)

lemma cancelEditGeometry_selection:
  "selectedId (cancelEditGeometry u) = selectedId u"
  "selectedGeomType (cancelEditGeometry u) = selectedGeomType u"
  by (simp_all add: cancelEditGeometry_def setStatusMsg_def)

lemma saveEditGeometry_selection:
  "selectedId (fst (saveEditGeometry E (u, w))) = selectedId u"
  "selectedGeomType (fst (saveEditGeometry E (u, w))) = selectedGeomType u"
  by (simp_all add: saveEditGeometry_def refresh_selection setStatusMsg_def Let_def
        split: prod.splits option.splits)

lemma startCreate_selection:
  "selectedId (startCreate E mode u) = None"
  "selectedGeomType (startCreate E mode u) = None"
  by (simp_all add: startCreate_def Let_def setStatusMsg_def)

lemma selectById_selectedId:
  "selectedId (fst (selectById E i g (u, w))) = (if mapRef u = None then selectedId u else Some i)"
  by (simp add: selectById_def Let_def load_ui_frame setStatusMsg_def fill_form_frame
        split: option.splits)

lemma selectById_unchanged:
  "mapRef u = None \<Longrightarrow> selectedGeomType (fst (selectById E i g (u, w))) = selectedGeomType u"
  by (simp add: selectById_def)

lemma onDeleteSelected_selection:
  "(selectedId (fst (onDeleteSelected E (u, w))) = selectedId u
      \<and> selectedGeomType (fst (onDeleteSelected E (u, w))) = selectedGeomType u)
   \<or> (selectedId (fst (onDeleteSelected E (u, w))) = None
      \<and> selectedGeomType (fst (onDeleteSelected E (u, w))) = None)"
  by (simp add: onDeleteSelected_def refreshData_at_selection setStatusMsg_def Let_def
        cancelMove_selection drop_editing_selection split: prod.splits option.splits)

lemma layer_click_cases:
  "(selectedId (fst (layer_click E l e (u, w))) = selectedId u
      \<and> selectedGeomType (fst (layer_click E l e (u, w))) = selectedGeomType u)
   \<or> (\<exists>i. clicked_id e = Some i
          \<and> selectedId (fst (layer_click E l e (u, w))) = Some i
          \<and> selectedGeomType (fst (layer_click E l e (u, w))) = Some (layer_kind l))"
proof -
  have sel: "(selectedId (fst (selectById_at c E i (Some k) (drop_editing u, w))) = selectedId u
      \<and> selectedGeomType (fst (selectById_at c E i (Some k) (drop_editing u, w)))
          = selectedGeomType u)
   \<or> (selectedId (fst (selectById_at c E i (Some k) (drop_editing u, w))) = Some i
      \<and> selectedGeomType (fst (selectById_at c E i (Some k) (drop_editing u, w))) = Some k)"
    if "k \<noteq> []" for i k c
  proof (cases "mapRef (drop_editing u)")
    case None
    then show ?thesis
      by (simp add: selectById_at_no_map drop_editing_selection)
  next
    case (Some m)
    then show ?thesis
      using selectById_at_selection(1,2) [OF Some that] by simp
  qed
  show ?thesis
    using sel [of "''Point''"] sel [of "''LineString''"] sel [of "''Polygon''"]
    by (cases l) (auto simp add: selectPoint_def selectRoute_def selectFence_def
          split: option.splits)
qed

lemma handle_selection:
  "(selectedId (fst (handle E ev (v, x))) = selectedId v
      \<and> selectedGeomType (fst (handle E ev (v, x))) = selectedGeomType v)
   \<or> (\<exists>i. ev = SelectRow i \<and> selectedId (fst (handle E ev (v, x))) = Some i)
   \<or> (\<exists>l e i. ev = ClickLayer l e \<and> clicked_id e = Some i
          \<and> selectedId (fst (handle E ev (v, x))) = Some i
          \<and> selectedGeomType (fst (handle E ev (v, x))) = Some (layer_kind l))
   \<or> ((ev = DeleteSelected \<or> (\<exists>mode. ev = StartCreate mode))
      \<and> selectedId (fst (handle E ev (v, x))) = None
      \<and> selectedGeomType (fst (handle E ev (v, x))) = None)"
proof (cases ev)
  case Refresh
  then show ?thesis by (simp add: refresh_selection)
next
  case (SelectRow i)
  then show ?thesis
    by (cases "mapRef v") (simp_all add: selectById_selectedId selectById_unchanged)
next
  case (ClickLayer l e)
  then show ?thesis using layer_click_cases [of E l e v x] by auto
next
  case (StartCreate mode)
  then show ?thesis by (simp add: startCreate_selection)
next
  case AddPoint
  then show ?thesis by (simp add: createFromFormPoint_selection)
next
  case (DrawCreate e)
  then show ?thesis by (simp add: onDrawCreate_selection)
next
  case (EditCell i p)
  then show ?thesis by (simp add: onEditCell_selection)
next
  case (DeleteRow i)
  then show ?thesis by (simp add: onDeleteRow_selection)
next
  case SaveChanges
  then show ?thesis by (simp add: onSaveChanges_selection)
next
  case DeleteSelected
  then show ?thesis using onDeleteSelected_selection [of E v x] by auto
next
  case ApplyMove
  then show ?thesis by (simp add: applyMove_selection)
next
  case CancelMove
  then show ?thesis by (simp add: cancelMove_selection)
next
  case StartEditGeometry
  then show ?thesis by (simp add: startEditGeometry_selection)
next
  case SaveEditGeometry
  then show ?thesis by (simp add: saveEditGeometry_selection)
next
  case CancelEditGeometry
  then show ?thesis by (simp add: cancelEditGeometry_selection)
next
  case (UploadFiles files)
  then show ?thesis by (simp add: upload_selection split: option.splits)
next
  case ReloadAttachments
  then show ?thesis by (simp add: load_ui_frame split: option.splits)
qed

lemma no_highlight:
  assumes "absent i fs" and "f \<in> set fs" and "get_prop f ''id'' \<noteq> Some (JNum (- 1))"
  shows "\<not> point_selected_shows (refresh_filters gt (Some i) m) f
       \<and> \<not> route_selected_shows (refresh_filters gt (Some i) m) f
       \<and> \<not> geofence_selected_outline_shows (refresh_filters gt (Some i) m) f"
  using assms
  by (auto simp add: absent_def point_selected_shows_def route_selected_shows_def
        geofence_selected_outline_shows_def refresh_filters_def coalesce_def)

text \<open>
  Claim C6, as amended. A refresh never changes the selection: after \<open>refreshData\<close> the
  selected id and geometry kind are what they were, whether the load failed or not and
  whether the selected id is still in the snapshot or not. When the refresh recomputes
  the highlight filters (the load succeeded, the map is there and its style is loaded)
  and no feature of the new snapshot carries the selected id, the filter of the selected
  kind holds the selected id, the other two hold the sentinel \<open>-1\<close>, and none of the
  three highlight layers draws a feature of the new snapshot, a feature whose \<open>id\<close>
  property is the sentinel itself aside. Features are told apart by their \<open>id\<close>
  property, as the page does everywhere. Among the handlers of the page the selection
  is changed only by a new selection (the button of a table row or a click on a
  feature layer), which replaces it by the chosen id, and by the "Delete" of the panel
  and the entering of a create mode, which clear it.
\<close>

theorem refresh_keeps_selection:
  assumes "refreshData E (u, w) = (u', w')"
  shows "selectedId u' = selectedId u \<and> selectedGeomType u' = selectedGeomType u
       \<and> (\<forall>m i. fails E (SelectResources (eq_filter (fltType u)) (eq_filter (fltStatus u))) = None
                 \<and> mapRef u = Some m \<and> styleLoaded m
                 \<and> selectedId u = Some i \<and> absent i (fc u')
            \<longrightarrow> (\<exists>m'. mapRef u' = Some m'
                   \<and> point_selected m' = (if selectedGeomType u = Some ''Point'' then i else - 1)
                   \<and> route_selected m' = (if selectedGeomType u = Some ''LineString'' then i else - 1)
                   \<and> geofence_selected_outline m' = (if selectedGeomType u = Some ''Polygon'' then i else - 1)
                   \<and> (\<forall>f \<in> set (fc u'). get_prop f ''id'' \<noteq> Some (JNum (- 1))
                          \<longrightarrow> \<not> point_selected_shows m' f
                            \<and> \<not> route_selected_shows m' f
                            \<and> \<not> geofence_selected_outline_shows m' f)))
       \<and> (selectedId (fst (handle E ev (v, x))) \<noteq> selectedId v
            \<or> selectedGeomType (fst (handle E ev (v, x))) \<noteq> selectedGeomType v
          \<longrightarrow> (\<exists>i. ev = SelectRow i \<and> selectedId (fst (handle E ev (v, x))) = Some i)
            \<or> (\<exists>l e i. ev = ClickLayer l e \<and> clicked_id e = Some i
                   \<and> selectedId (fst (handle E ev (v, x))) = Some i
                   \<and> selectedGeomType (fst (handle E ev (v, x))) = Some (layer_kind l))
            \<or> ((ev = DeleteSelected \<or> (\<exists>mode. ev = StartCreate mode))
               \<and> selectedId (fst (handle E ev (v, x))) = None
               \<and> selectedGeomType (fst (handle E ev (v, x))) = None))"
proof -
  have u': "u' = fst (refreshData E (u, w))" using assms by simp
  have sel: "selectedId u' = selectedId u \<and> selectedGeomType u' = selectedGeomType u"
    by (simp add: u' refresh_selection)
  have hl: "\<exists>m'. mapRef u' = Some m'
                   \<and> point_selected m' = (if selectedGeomType u = Some ''Point'' then i else - 1)
                   \<and> route_selected m' = (if selectedGeomType u = Some ''LineString'' then i else - 1)
                   \<and> geofence_selected_outline m' = (if selectedGeomType u = Some ''Polygon'' then i else - 1)
                   \<and> (\<forall>f \<in> set (fc u'). get_prop f ''id'' \<noteq> Some (JNum (- 1))
                          \<longrightarrow> \<not> point_selected_shows m' f
                            \<and> \<not> route_selected_shows m' f
                            \<and> \<not> geofence_selected_outline_shows m' f)"
    if ok: "fails E (SelectResources (eq_filter (fltType u)) (eq_filter (fltStatus u))) = None"
      and m: "mapRef u = Some m" "styleLoaded m"
      and i: "selectedId u = Some i" and ab: "absent i (fc u')"
    for m i
  proof -
    let ?m' = "refresh_filters (selectedGeomType u) (Some i) m"
    have "mapRef u' = Some ?m'"
      using refresh_mapRef [OF ok m, of w] i by (simp add: u')
    moreover have "\<forall>f \<in> set (fc u'). get_prop f ''id'' \<noteq> Some (JNum (- 1))
                          \<longrightarrow> \<not> point_selected_shows ?m' f
                            \<and> \<not> route_selected_shows ?m' f
                            \<and> \<not> geofence_selected_outline_shows ?m' f"
      using no_highlight [OF ab] by blast
    ultimately show ?thesis
      by (simp add: refresh_filters_def coalesce_def)
  qed
  have ev: "selectedId (fst (handle E ev (v, x))) \<noteq> selectedId v
            \<or> selectedGeomType (fst (handle E ev (v, x))) \<noteq> selectedGeomType v
          \<longrightarrow> (\<exists>i. ev = SelectRow i \<and> selectedId (fst (handle E ev (v, x))) = Some i)
            \<or> (\<exists>l e i. ev = ClickLayer l e \<and> clicked_id e = Some i
                   \<and> selectedId (fst (handle E ev (v, x))) = Some i
                   \<and> selectedGeomType (fst (handle E ev (v, x))) = Some (layer_kind l))
            \<or> ((ev = DeleteSelected \<or> (\<exists>mode. ev = StartCreate mode))
               \<and> selectedId (fst (handle E ev (v, x))) = None
               \<and> selectedGeomType (fst (handle E ev (v, x))) = None)"
    using handle_selection [of E ev v x] by blast
  show ?thesis using sel hl ev by blast
qed

text \<open>
  The claim as stated fails twice. Entering a create mode clears the selection, though
  it is neither a delete nor a new selection: the point 1 is selected and "New Point" is
  pressed. And a recomputed highlight filter can match a feature: the property bag of
  the route 9 has a member \<open>id\<close> with the value \<open>-1\<close>, which takes the place of the row's
  id in the feature; the selected point 5 is gone from the snapshot, the filter of the
  routes holds the sentinel, and the route 9 is drawn as selected.
\<close>

theorem refresh_keeps_selection_counterexample:
  "selectedId ui_move_pick = Some 1
   \<and> selectedId (fst (handle env0 (StartCreate CreatePoint) (ui_move_pick, world_truck))) = None
   \<and> selectedGeomType (fst (handle env0 (StartCreate CreatePoint) (ui_move_pick, world_truck)))
       = None
   \<and> selectedId ui_selected5 = Some 5
   \<and> selectedId (fst (refreshData env0 (ui_selected5, world_sentinel))) = Some 5
   \<and> fc (fst (refreshData env0 (ui_selected5, world_sentinel))) = [feature9_sentinel]
   \<and> get_prop feature9_sentinel ''id'' = Some (JNum (- 1))
   \<and> mapRef (fst (refreshData env0 (ui_selected5, world_sentinel)))
       = Some \<lparr>styleLoaded = True, point_selected = 5, route_selected = - 1,
                geofence_selected_outline = - 1\<rparr>
   \<and> route_selected_shows
         \<lparr>styleLoaded = True, point_selected = 5, route_selected = - 1,
          geofence_selected_outline = - 1\<rparr> feature9_sentinel"
proof -
  have a: "selectedId ui_move_pick = Some 1"
    by (simp add: ui_move_pick_def initial_ui_def)
  have b: "fc (fst (refreshData env0 (ui_selected5, world_sentinel))) = [feature9_sentinel]"
    by (simp add: refresh_eval env0_def ui_selected5_def initial_ui_def world_sentinel_def
          world0_def route9_def feature9_sentinel_def)
  have c: "mapRef (fst (refreshData env0 (ui_selected5, world_sentinel)))
       = Some \<lparr>styleLoaded = True, point_selected = 5, route_selected = - 1,
                geofence_selected_outline = - 1\<rparr>"
    by (simp add: refresh_eval env0_def ui_selected5_def initial_ui_def world_sentinel_def
          world0_def route9_def)
  have d: "route_selected_shows
         \<lparr>styleLoaded = True, point_selected = 5, route_selected = - 1,
          geofence_selected_outline = - 1\<rparr> feature9_sentinel"
    "get_prop feature9_sentinel ''id'' = Some (JNum (- 1))"
    by (simp_all add: route_selected_shows_def get_prop_def feature9_sentinel_def)
  have e: "selectedId ui_selected5 = Some 5"
    by (simp add: ui_selected5_def initial_ui_def)
  show ?thesis
    using a b c d e by (simp add: startCreate_selection refresh_selection)
qed

lemma world_sentinel_reached:
  "resources (snd (onEditCell env0 9 (P_properties (JObj [(''id'', JNum (- 1))]))
                     (initial_ui, world_route)))
   = resources world_sentinel"
proof -
  obtain r w1 where rpc: "rpc_update_resource env0 9 None None None
        (Some (JObj [(''id'', JNum (- 1))])) None world_route = (r, w1)"
    by force
  have "r = None"
    using rpc
    by (simp add: rpc_update_resource_def update_resource_def send_def find_resource_def
          world_route_def world0_def route9_def env0_def Let_def)
  moreover have "resources w1 = resources world_sentinel"
    using rpc
    by (auto simp add: rpc_update_resource_def update_resource_def send_def find_resource_def
          world_route_def world_sentinel_def world0_def route9_def env0_def Let_def set_clause_def
          coalesce_def coalesce_null_def log_activity_def)
  ultimately show ?thesis
    using rpc by (simp add: onEditCell_def)
qed

lemma refreshData_at_resources:
  "resources (snd (refreshData_at c E (u, w))) = resources w"
proof -
  have "resources w1 = resources w" if "refreshData E (v, w) = (u1, w1)" for v u1 w1
    using refresh_resources [of E v w] that by simp
  then show ?thesis
    by (simp add: refreshData_at_def split: prod.splits)
qed

lemma onDeleteSelected_clears:
  assumes "selectedId u = Some i" and "i \<noteq> 0" and "rpc_delete_resource E i w = (None, w1)"
  shows "selectedId (fst (onDeleteSelected E (u, w))) = None"
    and "selectedGeomType (fst (onDeleteSelected E (u, w))) = None"
    and "resources (snd (onDeleteSelected E (u, w))) = resources w1"
  using assms
  by (simp_all add: onDeleteSelected_def Let_def refreshData_at_selection
        refreshData_at_resources setStatusMsg_def)

theorem refresh_keeps_selection_witness:
  "selectedId ui_selected5 = Some 5
   \<and> selectedGeomType ui_selected5 = Some ''Point''
   \<and> fc (fst (refreshData env0 (ui_selected5, world_route))) = [feature9]
   \<and> absent 5 (fc (fst (refreshData env0 (ui_selected5, world_route))))
   \<and> selectedId (fst (refreshData env0 (ui_selected5, world_route))) = Some 5
   \<and> selectedGeomType (fst (refreshData env0 (ui_selected5, world_route))) = Some ''Point''
   \<and> (\<exists>m'. mapRef (fst (refreshData env0 (ui_selected5, world_route))) = Some m'
          \<and> point_selected m' = 5 \<and> route_selected m' = - 1
          \<and> geofence_selected_outline m' = - 1
          \<and> (\<forall>f \<in> set (fc (fst (refreshData env0 (ui_selected5, world_route)))).
                 \<not> point_selected_shows m' f \<and> \<not> route_selected_shows m' f
               \<and> \<not> geofence_selected_outline_shows m' f))
   \<and> selectedId ui_editing_route = Some 9
   \<and> selectedId (fst (handle env0 DeleteSelected (ui_editing_route, world_route))) = None
   \<and> selectedGeomType (fst (handle env0 DeleteSelected (ui_editing_route, world_route))) = None
   \<and> resources (snd (handle env0 DeleteSelected (ui_editing_route, world_route))) = []"
proof -
  obtain u' w' where R: "refreshData env0 (ui_selected5, world_route) = (u', w')"
    by force
  have u': "fst (refreshData env0 (ui_selected5, world_route)) = u'"
    by (simp add: R)
  have fcu: "fc u' = [feature9]"
    using refresh_example_fc by (simp add: u' feature9_def)
  have sel: "selectedId ui_selected5 = Some 5" "selectedGeomType ui_selected5 = Some ''Point''"
    by (simp_all add: ui_selected5_def initial_ui_def)
  have ok: "fails env0 (SelectResources (eq_filter (fltType ui_selected5))
                          (eq_filter (fltStatus ui_selected5))) = None"
    by (simp add: env0_def)
  have m: "mapRef ui_selected5 = Some \<lparr>styleLoaded = True, point_selected = 5,
              route_selected = - 1, geofence_selected_outline = - 1\<rparr>"
    by (simp add: ui_selected5_def initial_ui_def)
  have ab: "absent 5 (fc u')" "get_prop feature9 ''id'' \<noteq> Some (JNum (- 1))"
    by (simp_all add: fcu absent_def get_prop_def feature9_def)
  obtain w1 where del: "rpc_delete_resource env0 9 world_route = (None, w1)"
    and w1: "resources w1 = []"
    by (simp add: rpc_delete_resource_def delete_resource_def find_resource_def send_def
          log_activity_def world_route_def world0_def route9_def env0_def Let_def)
  have s9: "selectedId ui_editing_route = Some 9"
    by (rule ui_editing_route_state(2))
  have cl: "selectedId (fst (onDeleteSelected env0 (ui_editing_route, world_route))) = None"
    "selectedGeomType (fst (onDeleteSelected env0 (ui_editing_route, world_route))) = None"
    "resources (snd (onDeleteSelected env0 (ui_editing_route, world_route))) = []"
    using onDeleteSelected_clears [OF s9 _ del] w1 by simp_all
  show ?thesis
    using refresh_keeps_selection [OF R, where ev = DeleteSelected and v = ui_editing_route
            and x = world_route] sel ok m ab fcu s9 cl
    by (simp add: u')
qed

end
